theory Spec2Isabelle
  imports Complex_Main
begin

section \<open>Data model (src/types/tsp.ts)\<close>

text \<open>
  A JavaScript number is a real here; NaN and the infinities are not modelled. The
  arithmetic of the projection (\<open>computeBounds\<close>, \<open>scalePoint\<close>, \<open>handleResize\<close>) and
  the conversion of a number to text are those of IEEE 754 double precision: every
  operation of the source is followed by the rounding \<open>fl\<close> of the next section. The
  route metrics (\<open>calculateDistance\<close> and the sums of the table) are in exact
  arithmetic, and so is what the renderers compute from the projected points to place the
  decorations (label anchors, arrowheads, grid lines, captions), part of which goes
  through \<open>Math.atan2\<close>, \<open>Math.cos\<close> and \<open>Math.sin\<close>, left to the implementation
  by ECMAScript.
  An optional field, and a field that the code tests for presence
  before use (\<open>solution.originalPoints ? ... : ...\<close>, \<open>Array.isArray(solution.route)\<close>),
  is an \<open>option\<close>. The fields \<open>x\<close> and \<open>y\<close> of the source are called \<open>px\<close> and
  \<open>py\<close> here, so that \<open>x\<close> and \<open>y\<close> stay usable as variables. The record \<open>xy\<close> is
  the structural type \<open>{ x: number; y: number }\<close> of the source; \<open>Point\<close> and
  \<open>RoutePoint\<close> extend it.
\<close>

record xy =
  px :: real
  py :: real

record point = xy +
  address :: "string option"

record route_point = point +
  order :: nat

record solution =
  pointCount :: nat
  route :: "route_point list option"
  originalPoints :: "point list option"
  totalDistance :: "real option"

section \<open>Double precision\<close>

text \<open>
  The value of an arithmetic operation of JavaScript is the double nearest to the exact
  result, the one with the even significand on a tie. \<open>fl z\<close> is that double for a
  real \<open>z\<close>: the exponent of \<open>z\<close> is \<open>\<lfloor>log 2 \<bar>z\<bar>\<rfloor>\<close>, and not less than \<open>-1022\<close> (below,
  the doubles are the subnormal ones, all with the spacing \<open>2 ^ -1074\<close>); the spacing of
  the doubles around \<open>z\<close> is \<open>ulp z\<close>, 52 binary places below the exponent; and \<open>z\<close>
  is rounded to a multiple of it. Overflow is not modelled: above the largest double
  \<open>fl\<close> goes on rounding to 53 bits where JavaScript gives \<open>Infinity\<close>.
\<close>

definition roundHalfEven :: "real \<Rightarrow> int" where
  "roundHalfEven t =
     (let f = \<lfloor>t\<rfloor>
      in if t - of_int f < 1 / 2 then f
         else if 1 / 2 < t - of_int f then f + 1
         else if even f then f else f + 1)"

definition binade :: "real \<Rightarrow> int" where
  "binade z = max \<lfloor>log 2 \<bar>z\<bar>\<rfloor> (- 1022)"

definition ulp :: "real \<Rightarrow> real" where
  "ulp z = 2 powi (binade z - 52)"

definition fl :: "real \<Rightarrow> real" where
  "fl z = (if z = 0 then 0 else of_int (roundHalfEven (z / ulp z)) * ulp z)"

text \<open>
  The two constants of the error of one rounding: \<open>\<bar>fl z - z\<bar>\<close> is at most
  \<open>unitRoundoff * \<bar>z\<bar> + tiny\<close>.
\<close>

definition unitRoundoff :: real where
  "unitRoundoff = 2 powi (- 53)"

definition tiny :: real where
  "tiny = 2 powi (- 1075)"

section \<open>Route metrics (SolutionDetails.tsx)\<close>

text \<open>
  \<^verbatim>\<open>
  const calculateDistance = (point1, point2) => {
    const dx = point2.x - point1.x;
    const dy = point2.y - point1.y;
    return Math.sqrt(dx * dx + dy * dy);
  };
  \<close>
  The same function is declared again in TSPVisualizationSVG.tsx.
\<close>

definition calculateDistance :: "'a xy_scheme \<Rightarrow> 'b xy_scheme \<Rightarrow> real" where
  "calculateDistance point1 point2 =
     (let dx = px point2 - px point1;
          dy = py point2 - py point1
      in sqrt (dx * dx + dy * dy))"

text \<open>
  \<^verbatim>\<open>
  const getRouteDistances = (route) => {
    const distances = [];
    for (let i = 0; i < route.length; i++) {
      const current = route[i];
      const next = route[(i + 1) % route.length];
      distances.push(calculateDistance(current, next));
    }
    return distances;
  };
  \<close>
  The loop is the recursion \<open>getRouteDistances_loop\<close> on the counter \<open>i\<close> and the
  array \<open>distances\<close> built so far. Both reads are in range inside the loop:
  \<open>i < length route\<close> is the loop condition, and \<open>(i + 1) mod length route\<close> is
  below \<open>length route\<close> because the length is positive there. The parameter
  \<open>route\<close> is written \<open>r\<close>, \<open>route\<close> being the field of the solution.
\<close>

function getRouteDistances_loop :: "'a xy_scheme list \<Rightarrow> nat \<Rightarrow> real list \<Rightarrow> real list" where
  "getRouteDistances_loop r i distances =
     (if i < length r
      then (let current = r ! i;
                next = r ! ((i + 1) mod length r)
            in getRouteDistances_loop r (i + 1) (distances @ [calculateDistance current next]))
      else distances)"
  by pat_completeness auto
termination
  by (relation "measure (\<lambda>(r, i, distances). length r - i)") auto

declare getRouteDistances_loop.simps [simp del]

definition getRouteDistances :: "'a xy_scheme list \<Rightarrow> real list" where
  "getRouteDistances r = getRouteDistances_loop r 0 []"

section \<open>The route table (SolutionDetails.tsx)\<close>

text \<open>
  \<open>Number.prototype.toFixed\<close> of ECMAScript on a number \<open>v\<close> with \<open>f\<close> fraction
  digits: the sign is split off; from \<open>10 ^ 21\<close> on the text is that of
  \<open>Number::toString\<close>, and below (\<open>fixedDigits\<close>) \<open>n\<close> is the integer nearest to
  \<open>\<bar>v\<bar> * 10 ^ f\<close> (the larger one on a tie), its decimal digits are padded with zeros
  to \<open>f + 1\<close> places and the point is put before the last \<open>f\<close>.

  \<open>Number::toString\<close> is modelled on the numbers from \<open>10 ^ 21\<close> on, where it writes
  the exponential notation: for the double \<open>x\<close>, with \<open>n\<close> the number of digits of its
  integer part, it takes the least number \<open>k\<close> of digits for which some integer \<open>s\<close>
  gives back \<open>x\<close> when \<open>s * 10 ^ (n - k)\<close> is rounded to a double, and of these the
  \<open>s\<close> that makes \<open>s * 10 ^ (n - k)\<close> nearest to \<open>x\<close>, the even one on a tie. The only
  integers to try are the one below \<open>x / 10 ^ (n - k)\<close> and the one above (rounding is
  monotone); when the one above is \<open>10 ^ k\<close> the digits are \<open>1\<close> and the exponent is one
  more. The text is the first digit, a point and the other digits if there are any,
  \<open>e+\<close> and the exponent.
\<close>

function decimal :: "nat \<Rightarrow> string" where
  "decimal n =
     (if n < 10 then [''0123456789'' ! n]
      else decimal (n div 10) @ [''0123456789'' ! (n mod 10)])"
  by pat_completeness auto
termination
  by (relation "measure id") auto

declare decimal.simps [simp del]

definition candidates :: "real \<Rightarrow> nat \<Rightarrow> nat \<Rightarrow> nat list" where
  "candidates x n k =
     (let lo = nat \<lfloor>x / 10 ^ (n - k)\<rfloor>
      in filter (\<lambda>s. fl (real s * 10 ^ (n - k)) = x) [lo, lo + 1])"

definition nearest :: "real \<Rightarrow> nat \<Rightarrow> nat \<Rightarrow> nat" where
  "nearest x n k =
     (case candidates x n k of
        [s1, s2] \<Rightarrow>
          (let d1 = x - real s1 * 10 ^ (n - k);
               d2 = real s2 * 10 ^ (n - k) - x
           in if d1 < d2 then s1 else if d2 < d1 then s2 else if even s1 then s1 else s2)
      | ss \<Rightarrow> hd ss)"

definition exponential :: "nat \<Rightarrow> nat \<Rightarrow> string" where
  "exponential s n =
     (let ds = decimal s
      in (if length ds = 1 then ds else take 1 ds @ ''.'' @ drop 1 ds)
         @ ''e+'' @ decimal (n - 1))"

definition numberToString :: "real \<Rightarrow> string" where
  "numberToString v =
     (let x = fl v;
          n = length (decimal (nat \<lfloor>x\<rfloor>))
      in case find (\<lambda>k. candidates x n k \<noteq> []) [1..<n + 1] of
           None \<Rightarrow> []
         | Some k \<Rightarrow>
             (let s = nearest x n k
              in if s = 10 ^ k then exponential 1 (n + 1) else exponential s n))"

definition fixedDigits :: "real \<Rightarrow> nat \<Rightarrow> string" where
  "fixedDigits x f =
     (let n = nat \<lfloor>x * 10 ^ f + 1 / 2\<rfloor>;
          m = decimal n;
          m = (if length m \<le> f then replicate (f + 1 - length m) (CHR ''0'') @ m else m);
          k = length m
      in if f = 0 then m
         else take (k - f) m @ ''.'' @ drop (k - f) m)"

definition toFixed :: "real \<Rightarrow> nat \<Rightarrow> string" where
  "toFixed v f =
     (let s = (if v < 0 then ''-'' else []);
          x = \<bar>v\<bar>;
          m = (if 10 ^ 21 \<le> x then numberToString x else fixedDigits x f)
      in s @ m)"

text \<open>
  \<^verbatim>\<open>
  const formatDistance = (distance?: number) => {
    if (!distance) return 'N/A';
    return distance.toFixed(2);
  };
  \<close>
  \<open>!distance\<close> holds for \<open>undefined\<close> (here \<open>None\<close>) and for zero.
\<close>

definition formatDistance :: "real option \<Rightarrow> string" where
  "formatDistance distance =
     (case distance of
        None \<Rightarrow> ''N/A''
      | Some d \<Rightarrow> if d = 0 then ''N/A'' else toFixed d 2)"

text \<open>
  \<open>Array.prototype.findIndex\<close>: the index of the first element that satisfies the
  predicate, and \<open>-1\<close> when there is none.
\<close>

fun findIndex_from :: "('a \<Rightarrow> bool) \<Rightarrow> 'a list \<Rightarrow> int \<Rightarrow> int" where
  "findIndex_from P [] k = - 1"
| "findIndex_from P (v # vs) k = (if P v then k else findIndex_from P vs (k + 1))"

definition findIndex :: "('a \<Rightarrow> bool) \<Rightarrow> 'a list \<Rightarrow> int" where
  "findIndex P vs = findIndex_from P vs 0"

text \<open>
  The content of the column "Original #": a number or the string \<open>'N/A'\<close>.
  \<^verbatim>\<open>
  const originalIndex = solution.originalPoints ?
    solution.originalPoints.findIndex(op =>
      Math.abs(op.x - point.x) < 0.001 && Math.abs(op.y - point.y) < 0.001
    ) + 1 : 'N/A';
  \<close>
\<close>

datatype original_cell = Number int | NotAvailable

definition matches :: "'a xy_scheme \<Rightarrow> 'b xy_scheme \<Rightarrow> bool" where
  "matches point op \<longleftrightarrow> \<bar>px op - px point\<bar> < 0.001 \<and> \<bar>py op - py point\<bar> < 0.001"

definition originalIndexOf :: "point list option \<Rightarrow> 'a xy_scheme \<Rightarrow> original_cell" where
  "originalIndexOf ops point =
     (case ops of
        Some ps \<Rightarrow> Number (findIndex (matches point) ps + 1)
      | None \<Rightarrow> NotAvailable)"

text \<open>
  The rows of the table "Optimized Route Details" (the same code stands twice in the
  component, once for each layout):
  \<^verbatim>\<open>
  const routeDistances = getRouteDistances(solution.route);
  let cumulativeDistance = 0;
  return solution.route.map((point, index) => {
    const distance = routeDistances[index];
    cumulativeDistance += distance;
    const originalIndex = ...;
    return (<tr> ... {originalIndex} ... {index + 1} ...
      {formatDistance(distance)}
      {index === solution.route.length - 1 && (<div>Return to start</div>)}
      {formatDistance(cumulativeDistance)} </tr>);
  });
  \<close>
  A row keeps the two numbers next to the cells that show them. The coordinates cell, the
  START badge and the styling of the row are left out. \<open>routeDistances[index]\<close> is read
  with \<open>index < length r\<close>, which is the length of \<open>routeDistances\<close>
  (lemma \<open>length_getRouteDistances\<close>), so the read is in range.
\<close>

record row =
  row_originalIndex :: original_cell
  row_routeOrder :: nat
  row_distance :: real
  row_cumulativeDistance :: real
  row_segmentCell :: string
  row_returnToStart :: bool
  row_totalCell :: string

function routeRows_loop ::
  "point list option \<Rightarrow> 'a xy_scheme list \<Rightarrow> real list \<Rightarrow> nat \<Rightarrow> real \<Rightarrow> row list" where
  "routeRows_loop ops r routeDistances index cumulativeDistance =
     (if index < length r
      then (let point = r ! index;
                distance = routeDistances ! index;
                cumulativeDistance = cumulativeDistance + distance;
                originalIndex = originalIndexOf ops point
            in \<lparr>row_originalIndex = originalIndex,
                row_routeOrder = index + 1,
                row_distance = distance,
                row_cumulativeDistance = cumulativeDistance,
                row_segmentCell = formatDistance (Some distance),
                row_returnToStart = (index = length r - 1),
                row_totalCell = formatDistance (Some cumulativeDistance)\<rparr>
               # routeRows_loop ops r routeDistances (index + 1) cumulativeDistance)
      else [])"
  by pat_completeness auto
termination
  by (relation "measure (\<lambda>(ops, r, routeDistances, index, cumulativeDistance). length r - index)")
    auto

declare routeRows_loop.simps [simp del]

definition routeRows :: "point list option \<Rightarrow> 'a xy_scheme list \<Rightarrow> row list" where
  "routeRows ops r = routeRows_loop ops r (getRouteDistances r) 0 0"

text \<open>
  The helper \<open>rowAt\<close> is the row that the loop builds at index \<open>k\<close> once the running
  total is \<open>c\<close>; \<open>cumulativeDistances\<close> is the sequence of the running totals of the
  rows, in the order of the table.
\<close>

definition rowAt ::
  "point list option \<Rightarrow> 'a xy_scheme list \<Rightarrow> real list \<Rightarrow> nat \<Rightarrow> real \<Rightarrow> row" where
  "rowAt ops r ds k c =
     \<lparr>row_originalIndex = originalIndexOf ops (r ! k),
      row_routeOrder = k + 1,
      row_distance = ds ! k,
      row_cumulativeDistance = c,
      row_segmentCell = formatDistance (Some (ds ! k)),
      row_returnToStart = (k = length r - 1),
      row_totalCell = formatDistance (Some c)\<rparr>"

definition cumulativeDistances :: "point list option \<Rightarrow> 'a xy_scheme list \<Rightarrow> real list" where
  "cumulativeDistances ops r = map row_cumulativeDistance (routeRows ops r)"

section \<open>Selection state (App.tsx, SolutionDetails.tsx)\<close>

text \<open>
  \<^verbatim>\<open>
  const [selectedOriginalPoint, setSelectedOriginalPoint] = useState<number | null>(null)
  const [selectedRoutePoint, setSelectedRoutePoint] = useState<number | null>(null)
  ...
  <SolutionDetails ... onSelectOriginalPoint={setSelectedOriginalPoint}
                       onSelectRoutePoint={setSelectedRoutePoint} />
  \<close>
  and, in the rows of the two tables,
  \<^verbatim>\<open>
  onClick={() => onSelectOriginalPoint?.(selectedOriginalPoint === index ? null : index)}
  onClick={() => onSelectRoutePoint?.(selectedRoutePoint === index ? null : index)}
  \<close>
\<close>

record selection =
  selectedOriginalPoint :: "nat option"
  selectedRoutePoint :: "nat option"

definition initialSelection :: selection where
  "initialSelection = \<lparr>selectedOriginalPoint = None, selectedRoutePoint = None\<rparr>"

definition setSelectedOriginalPoint :: "nat option \<Rightarrow> selection \<Rightarrow> selection" where
  "setSelectedOriginalPoint v s = s\<lparr>selectedOriginalPoint := v\<rparr>"

definition setSelectedRoutePoint :: "nat option \<Rightarrow> selection \<Rightarrow> selection" where
  "setSelectedRoutePoint v s = s\<lparr>selectedRoutePoint := v\<rparr>"

datatype click = ClickOriginalRow nat | ClickRouteRow nat

fun onClick :: "selection \<Rightarrow> click \<Rightarrow> selection" where
  "onClick s (ClickOriginalRow index) =
     setSelectedOriginalPoint (if selectedOriginalPoint s = Some index then None else Some index) s"
| "onClick s (ClickRouteRow index) =
     setSelectedRoutePoint (if selectedRoutePoint s = Some index then None else Some index) s"

text \<open>
  The state after a sequence of clicks, from the initial state of the application. The
  reachable states are the values of \<open>clicks\<close>.
\<close>

definition clicks :: "click list \<Rightarrow> selection" where
  "clicks cs = foldl onClick initialSelection cs"

text \<open>The exclusive selection of the specification: at most one of the two is set.\<close>

definition exclusive :: "selection \<Rightarrow> bool" where
  "exclusive s \<longleftrightarrow> selectedOriginalPoint s = None \<or> selectedRoutePoint s = None"

fun isRouteClick :: "click \<Rightarrow> bool" where
  "isRouteClick (ClickRouteRow index) = True"
| "isRouteClick (ClickOriginalRow index) = False"

section \<open>Projection (TSPVisualizationSVG.tsx, TSPVisualization.tsx)\<close>

text \<open>
  Both renderers compute the projection with the same statements; they differ in the
  constants. The SVG renderer has \<open>svgWidth = 800\<close>, \<open>svgHeight = 600\<close> and
  \<open>padding = 60\<close>, the canvas renderer \<open>canvas.width\<close>, \<open>canvas.height\<close> and
  \<open>padding = 40\<close>. The three are parameters of \<open>computeBounds\<close>.
  \<^verbatim>\<open>
  const xCoords = points.map(p => p.x);
  const yCoords = points.map(p => p.y);
  const minX = Math.min(...xCoords);
  const maxX = Math.max(...xCoords);
  const minY = Math.min(...yCoords);
  const maxY = Math.max(...yCoords);
  const rangeX = maxX - minX || 1;
  const rangeY = maxY - minY || 1;
  const scaleX = (svgWidth - 2 * padding) / rangeX;
  const scaleY = (svgHeight - 2 * padding) / rangeY;
  const scale = Math.min(scaleX, scaleY);
  const offsetX = (svgWidth - rangeX * scale) / 2 - minX * scale;
  const offsetY = (svgHeight - rangeY * scale) / 2 - minY * scale;
  const scalePoint = (point: Point) => ({
    x: point.x * scale + offsetX,
    y: svgHeight - (point.y * scale + offsetY), // Flip Y axis
  });
  \<close>
  \<open>Math.min\<close> and \<open>Math.max\<close> are applied to the coordinates of a non-empty array
  only: both renderers return before, when \<open>points.length === 0\<close>. \<open>a || b\<close> on
  numbers is \<open>b\<close> when \<open>a\<close> is zero and \<open>a\<close> otherwise. Each subtraction,
  multiplication, division and addition is rounded; \<open>Math.min\<close> and \<open>Math.max\<close>
  return one of their arguments and do not round. The coordinates of the points and the
  three parameters are the doubles that the source holds.
\<close>

fun mathMin :: "real list \<Rightarrow> real" where
  "mathMin (v # vs) = fold min vs v"

fun mathMax :: "real list \<Rightarrow> real" where
  "mathMax (v # vs) = fold max vs v"

definition orElse :: "real \<Rightarrow> real \<Rightarrow> real" where
  "orElse a b = (if a = 0 then b else a)"

record bounds =
  b_minX :: real
  b_maxX :: real
  b_minY :: real
  b_maxY :: real
  b_scale :: real
  b_offsetX :: real
  b_offsetY :: real
  b_svgWidth :: real
  b_svgHeight :: real

definition computeBounds :: "real \<Rightarrow> real \<Rightarrow> real \<Rightarrow> 'a xy_scheme list \<Rightarrow> bounds" where
  "computeBounds width height padding points =
     (let xCoords = map px points;
          yCoords = map py points;
          minX = mathMin xCoords;
          maxX = mathMax xCoords;
          minY = mathMin yCoords;
          maxY = mathMax yCoords;
          rangeX = orElse (fl (maxX - minX)) 1;
          rangeY = orElse (fl (maxY - minY)) 1;
          scaleX = fl (fl (width - fl (2 * padding)) / rangeX);
          scaleY = fl (fl (height - fl (2 * padding)) / rangeY);
          scale = min scaleX scaleY;
          offsetX = fl (fl (fl (width - fl (rangeX * scale)) / 2) - fl (minX * scale));
          offsetY = fl (fl (fl (height - fl (rangeY * scale)) / 2) - fl (minY * scale))
      in \<lparr>b_minX = minX, b_maxX = maxX, b_minY = minY, b_maxY = maxY, b_scale = scale,
          b_offsetX = offsetX, b_offsetY = offsetY, b_svgWidth = width, b_svgHeight = height\<rparr>)"

definition scalePoint :: "bounds \<Rightarrow> 'a xy_scheme \<Rightarrow> xy" where
  "scalePoint b point =
     \<lparr>px = fl (fl (px point * b_scale b) + b_offsetX b),
      py = fl (b_svgHeight b - fl (fl (py point * b_scale b) + b_offsetY b))\<rparr>"

text \<open>
  A list of coordinates of one axis is well conditioned when its extent (the largest
  minus the smallest) is zero or lies between \<open>2 ^ -100\<close> and \<open>2 ^ 100\<close>, and no
  coordinate is larger in absolute value than \<open>2 ^ 30\<close> times the range that the
  projection divides by (the extent, or 1 when the extent is zero). The rounding errors of
  the projection are small against the padding on such lists.
\<close>

definition wellConditioned :: "real list \<Rightarrow> bool" where
  "wellConditioned vs \<longleftrightarrow>
     (let d = mathMax vs - mathMin vs
      in (d = 0 \<or> (1 / 2 ^ 100 \<le> d \<and> d \<le> 2 ^ 100)) \<and>
         (\<forall>v\<in>set vs. \<bar>v\<bar> \<le> 2 ^ 30 * orElse d 1))"

text \<open>
  The state \<open>dimensions\<close> of the canvas renderer follows the width of the container of
  the canvas, an integer number of pixels:
  \<^verbatim>\<open>
  const width = Math.min(container.clientWidth - 32, 800);
  const height = Math.min(width * 0.75, 600);
  setDimensions({ width, height });
  \<close>
\<close>

definition handleResize :: "int \<Rightarrow> real \<times> real" where
  "handleResize clientWidth =
     (let width = min (fl (of_int clientWidth - 32)) 800;
          height = min (fl (width * 0.75)) 600
      in (width, height))"

text \<open>
  The assignments \<open>canvas.width = dimensions.width\<close> and
  \<open>canvas.height = dimensions.height\<close> store integers: the attributes are of the type
  \<open>unsigned long\<close>, so the number is truncated towards zero and reduced modulo
  \<open>2 ^ 32\<close>, and an attribute that is then above \<open>2147483647\<close> reads as its default
  (300 for the width and 150 for the height of a canvas). The drawing reads
  \<open>canvas.width\<close> and \<open>canvas.height\<close>, not the state.
\<close>

definition toUint32 :: "real \<Rightarrow> nat" where
  "toUint32 v = nat ((if v < 0 then - \<lfloor>- v\<rfloor> else \<lfloor>v\<rfloor>) mod 2 ^ 32)"

definition canvasAttribute :: "nat \<Rightarrow> real \<Rightarrow> nat" where
  "canvasAttribute fallback v = (let n = toUint32 v in if n \<le> 2147483647 then n else fallback)"

text \<open>
  The memoised layout of the SVG renderer, with the viewport as a parameter:
  \<^verbatim>\<open>
  if (!solution) return { scaledPoints: [], scaledRoute: [], bounds: null, routeDistances: [] };
  const points = Array.isArray(solution.originalPoints) ? solution.originalPoints : [];
  const route = Array.isArray(solution.route) ? solution.route : [];
  if (points.length === 0) return { scaledPoints: [], scaledRoute: [], bounds: null, routeDistances: [] };
  // Calculate distances for each segment in the original coordinate system
  const distances = route.length > 1 ? route.map((current, i) => {
    const next = route[(i + 1) % route.length];
    return calculateDistance(current, next);
  }) : [];
  ...
  return { scaledPoints: points.map(scalePoint), scaledRoute: route.map(scalePoint),
           bounds: {...}, routeDistances: distances };
  \<close>
\<close>

text \<open>
  The two arrays of a solution after the defensive checks of the renderers
  (\<open>Array.isArray(solution.originalPoints) ? solution.originalPoints : []\<close> and the
  same for the route).
\<close>

definition pointsOf :: "solution \<Rightarrow> point list" where
  "pointsOf sol = (case originalPoints sol of Some ps \<Rightarrow> ps | None \<Rightarrow> [])"

definition routeOf :: "solution \<Rightarrow> route_point list" where
  "routeOf sol = (case route sol of Some rs \<Rightarrow> rs | None \<Rightarrow> [])"

record layout =
  l_scaledPoints :: "xy list"
  l_scaledRoute :: "xy list"
  l_bounds :: "bounds option"
  l_routeDistances :: "real list"

definition emptyLayout :: layout where
  "emptyLayout = \<lparr>l_scaledPoints = [], l_scaledRoute = [], l_bounds = None, l_routeDistances = []\<rparr>"

definition useMemoLayout :: "real \<Rightarrow> real \<Rightarrow> real \<Rightarrow> solution option \<Rightarrow> layout" where
  "useMemoLayout svgWidth svgHeight padding solution =
     (case solution of
        None \<Rightarrow> emptyLayout
      | Some sol \<Rightarrow>
          (let points = pointsOf sol;
               r = routeOf sol
           in if length points = 0 then emptyLayout
              else (let distances =
                          (if length r > 1
                           then map (\<lambda>i. calculateDistance (r ! i) (r ! ((i + 1) mod length r)))
                                    [0..<length r]
                           else []);
                        b = computeBounds svgWidth svgHeight padding points
                    in \<lparr>l_scaledPoints = map (scalePoint b) points,
                        l_scaledRoute = map (scalePoint b) r,
                        l_bounds = Some b,
                        l_routeDistances = distances\<rparr>)))"

definition svgLayout :: "solution option \<Rightarrow> layout" where
  "svgLayout solution = useMemoLayout 800 600 60 solution"

section \<open>The theme (both renderers)\<close>

text \<open>
  \<^verbatim>\<open>
  const isDarkMode = () => document.documentElement.getAttribute('data-theme') === 'dark';
  const [darkMode, setDarkMode] = useState(isDarkMode());
  useEffect(() => {
    const observer = new MutationObserver(() => { setDarkMode(isDarkMode()); });
    observer.observe(document.documentElement,
                     { attributes: true, attributeFilter: ['data-theme'] });
    return () => observer.disconnect();
  }, []);
  \<close>
  The state \<open>darkMode\<close> of a component is \<open>isDarkMode\<close> of the document, at the first
  render and after every change of the attribute.

  What a renderer can read besides its properties is the browser around it. It is a value
  of its own here: the attributes of the root element of the document (\<open>None\<close> for an
  attribute that is absent), the \<open>clientWidth\<close> of the element that contains the canvas
  (\<open>None\<close> as long as \<open>handleResize\<close> has found no container; the canvas renderer
  reads it in \<open>handleResize\<close>, on mount and on every resize of the window), whether
  \<open>canvas.getContext('2d')\<close> returns a drawing context, and the text metrics of that
  context, \<open>ctx.measureText(text).width\<close> under a given \<open>ctx.font\<close>. The record is
  extensible: any further state of the browser is in the extension, which no definition
  below reads.
\<close>

record environment =
  rootAttributes :: "string \<Rightarrow> string option"
  containerClientWidth :: "int option"
  context2d :: bool
  measureText :: "string \<Rightarrow> string \<Rightarrow> real"

definition isDarkMode :: "'a environment_scheme \<Rightarrow> bool" where
  "isDarkMode env \<longleftrightarrow> rootAttributes env ''data-theme'' = Some ''dark''"

text \<open>
  The state \<open>dimensions\<close> of the canvas renderer: \<open>useState({ width: 600, height: 400 })\<close>
  until \<open>handleResize\<close> finds the container.
\<close>

definition dimensionsOf :: "'a environment_scheme \<Rightarrow> real \<times> real" where
  "dimensionsOf env =
     (case containerClientWidth env of
        None \<Rightarrow> (600, 400)
      | Some clientWidth \<Rightarrow> handleResize clientWidth)"

section \<open>Labels of the route segments (both renderers)\<close>

text \<open>
  \<open>Math.atan2\<close> on reals (without the signed zeros of floating point), and the anchor
  of the labels of a segment, at a distance from its midpoint and perpendicular to it:
  \<^verbatim>\<open>
  const midX = current.x + (next.x - current.x) * 0.5;
  const midY = current.y + (next.y - current.y) * 0.5;
  const lineAngle = Math.atan2(next.y - current.y, next.x - current.x);
  const perpAngle = lineAngle + Math.PI / 2;
  const offsetDistance = 25;     // 15 in the canvas renderer
  const offsetX = Math.cos(perpAngle) * offsetDistance;
  const offsetY = Math.sin(perpAngle) * offsetDistance;
  \<close>
\<close>

definition atan2 :: "real \<Rightarrow> real \<Rightarrow> real" where
  "atan2 b a =
     (if 0 < a then arctan (b / a)
      else if a < 0 then (if 0 \<le> b then arctan (b / a) + pi else arctan (b / a) - pi)
      else if 0 < b then pi / 2
      else if b < 0 then - pi / 2
      else 0)"

definition labelAnchor :: "real \<Rightarrow> xy \<Rightarrow> xy \<Rightarrow> real \<times> real" where
  "labelAnchor offsetDistance current next =
     (let midX = px current + (px next - px current) * 0.5;
          midY = py current + (py next - py current) * 0.5;
          lineAngle = atan2 (py next - py current) (px next - px current);
          perpAngle = lineAngle + pi / 2;
          offsetX = cos perpAngle * offsetDistance;
          offsetY = sin perpAngle * offsetDistance
      in (midX + offsetX, midY + offsetY))"

text \<open>An array read \<open>a[i]\<close> that the code tests for presence: \<open>None\<close> out of range.\<close>

definition nth_opt :: "'a list \<Rightarrow> nat \<Rightarrow> 'a option" where
  "nth_opt vs i = (if i < length vs then Some (vs ! i) else None)"

section \<open>The vector renderer (TSPVisualizationSVG.tsx)\<close>

text \<open>
  The tree of shapes inside the \<open><svg>\<close> element, in the order of the source, which
  is the order of painting: the grid, the two axis captions, the group of the route
  segments, one group for each original point, the highlight of the selected route point.
  A shape keeps its position, its radius, its fill or stroke colour and its text, and a
  line the marker at its end; stroke widths, fonts, opacity, dash patterns, the rotation
  of the caption of the y axis and the heading above the drawing are left out. The
  arguments of the constructors are \<open>SvgCircle cx cy r fill stroke\<close>,
  \<open>SvgText x y fill content\<close> and \<open>SvgLine x1 y1 x2 y2 stroke markerEnd\<close>.

  The arrowhead of the route lines is a marker defined once and referred to by every line:
  \<^verbatim>\<open>
  <marker id="arrowhead" markerWidth="10" markerHeight="7" refX="9" refY="3.5" orient="auto">
    <polygon points="0 0, 10 3.5, 0 7" fill="#ef4444" />
  </marker>
  \<close>
\<close>

record marker =
  m_id :: string
  m_markerWidth :: real
  m_markerHeight :: real
  m_refX :: real
  m_refY :: real
  m_orient :: string
  m_polygon :: "(real \<times> real) list"
  m_fill :: string

definition arrowhead :: marker where
  "arrowhead =
     \<lparr>m_id = ''arrowhead'', m_markerWidth = 10, m_markerHeight = 7, m_refX = 9, m_refY = 3.5,
      m_orient = ''auto'', m_polygon = [(0, 0), (10, 3.5), (0, 7)], m_fill = ''#ef4444''\<rparr>"

datatype svg_circle = SvgCircle real real real string string

datatype svg_text = SvgText real real string string

datatype svg_line = SvgLine real real real real string string

record segment_group =
  sg_line :: svg_line
  sg_order :: svg_text
  sg_distance :: svg_text

record point_group =
  pg_ring :: "svg_circle option"
  pg_circle :: svg_circle
  pg_start :: "svg_text option"
  pg_coordinates :: "svg_text option"
  pg_number :: "svg_text option"

record highlight_group =
  hg_ring :: svg_circle
  hg_label :: svg_text

record svg =
  svg_viewBox :: "real \<times> real"
  svg_background :: string
  svg_gridStroke :: string
  svg_markers :: "marker list"
  svg_axisX :: svg_text
  svg_axisY :: svg_text
  svg_route :: "segment_group list option"
  svg_points :: "point_group list"
  svg_highlight :: "highlight_group option"

datatype svg_view = Placeholder | Scene svg

text \<open>
  The group of segment \<open>i\<close>:
  \<^verbatim>\<open>
  const next = scaledRoute[(i + 1) % scaledRoute.length];
  ...
  const distance = routeDistances[i];
  <line x1={current.x} y1={current.y} x2={next.x} y2={next.y} stroke="#ef4444"
        strokeWidth="2" markerEnd="url(#arrowhead)" />
  <text x={midX + offsetX} y={midY + offsetY - 8} fill="#ef4444" ...>{i + 1}</text>
  <text x={midX + offsetX} y={midY + offsetY + 8} fill="#059669" ...>
    {distance ? distance.toFixed(1) : '0.0'}</text>
  \<close>
\<close>

definition svgSegment :: "xy list \<Rightarrow> real list \<Rightarrow> nat \<Rightarrow> segment_group" where
  "svgSegment scaledRoute routeDistances i =
     (let current = scaledRoute ! i;
          next = scaledRoute ! ((i + 1) mod length scaledRoute);
          (ax, ay) = labelAnchor 25 current next;
          distance = nth_opt routeDistances i
      in \<lparr>sg_line = SvgLine (px current) (py current) (px next) (py next) ''#ef4444''
                      ''url(#arrowhead)'',
          sg_order = SvgText ax (ay - 8) ''#ef4444'' (decimal (i + 1)),
          sg_distance = SvgText ax (ay + 8) ''#059669''
            (case distance of
               Some d \<Rightarrow> if d \<noteq> 0 then toFixed d 1 else ''0.0''
             | None \<Rightarrow> ''0.0'')\<rparr>)"

text \<open>
  The group of the original point \<open>index\<close>:
  \<^verbatim>\<open>
  const originalPoint = solution?.originalPoints?.[index];
  const isSelectedOriginal = selectedOriginalPoint === index;
  {isSelectedOriginal && (<circle cx={point.x} cy={point.y} r="12" fill="none" stroke="#3b82f6" .../>)}
  <circle cx={point.x} cy={point.y} r={isSelectedOriginal ? "8" : "6"}
          fill={index === 0 ? '#22c55e' : '#3b82f6'} stroke="#ffffff" .../>
  {index === 0 && (<text x={point.x} y={point.y - 25} fill="#22c55e" ...>START</text>)}
  {originalPoint && (<text x={point.x} y={point.y + (index === 0 ? 20 : 20)}
       fill={isSelectedOriginal ? "#3b82f6" : "#374151"} ...>
       ({originalPoint.x.toFixed(1)}, {originalPoint.y.toFixed(1)})</text>)}
  {isSelectedOriginal && (<text x={point.x} y={point.y + 4} fill="#ffffff" ...>{index + 1}</text>)}
  \<close>
\<close>

definition svgPoint :: "nat option \<Rightarrow> xy list \<Rightarrow> point list \<Rightarrow> nat \<Rightarrow> point_group" where
  "svgPoint selectedOriginal scaledPoints ops index =
     (let point = scaledPoints ! index;
          originalPoint = nth_opt ops index;
          isSelectedOriginal = (selectedOriginal = Some index)
      in \<lparr>pg_ring =
            (if isSelectedOriginal
             then Some (SvgCircle (px point) (py point) 12 ''none'' ''#3b82f6'') else None),
          pg_circle =
            SvgCircle (px point) (py point) (if isSelectedOriginal then 8 else 6)
              (if index = 0 then ''#22c55e'' else ''#3b82f6'') ''#ffffff'',
          pg_start =
            (if index = 0
             then Some (SvgText (px point) (py point - 25) ''#22c55e'' ''START'') else None),
          pg_coordinates =
            (case originalPoint of
               Some op \<Rightarrow>
                 Some (SvgText (px point) (py point + (if index = 0 then 20 else 20))
                         (if isSelectedOriginal then ''#3b82f6'' else ''#374151'')
                         (''('' @ toFixed (px op) 1 @ '', '' @ toFixed (py op) 1 @ '')''))
             | None \<Rightarrow> None),
          pg_number =
            (if isSelectedOriginal
             then Some (SvgText (px point) (py point + 4) ''#ffffff'' (decimal (index + 1)))
             else None)\<rparr>)"

text \<open>
  The highlight of the selected route point:
  \<^verbatim>\<open>
  {showRoute && selectedRoutePoint !== null && scaledRoute[selectedRoutePoint] && (<g>
     <circle cx={scaledRoute[selectedRoutePoint].x} cy={scaledRoute[selectedRoutePoint].y}
             r="15" fill="none" stroke="#22c55e" .../>
     <text x={scaledRoute[selectedRoutePoint].x} y={scaledRoute[selectedRoutePoint].y - 30}
           fill="#22c55e" ...>ROUTE #{selectedRoutePoint + 1}</text></g>)}
  \<close>
\<close>

definition svgHighlight :: "bool \<Rightarrow> nat option \<Rightarrow> xy list \<Rightarrow> highlight_group option" where
  "svgHighlight showRoute selectedRoute scaledRoute =
     (if showRoute
      then (case selectedRoute of
              None \<Rightarrow> None
            | Some k \<Rightarrow>
                (case nth_opt scaledRoute k of
                   None \<Rightarrow> None
                 | Some p \<Rightarrow>
                     Some \<lparr>hg_ring = SvgCircle (px p) (py p) 15 ''none'' ''#22c55e'',
                           hg_label = SvgText (px p) (py p - 30) ''#22c55e''
                                        (''ROUTE #'' @ decimal (k + 1))\<rparr>))
      else None)"

text \<open>
  The component, with the viewport and the state \<open>darkMode\<close> as parameters. Without a
  solution it shows a placeholder; otherwise
  \<^verbatim>\<open>
  <svg viewBox={`0 0 ${bounds?.svgWidth || 800} ${bounds?.svgHeight || 600}`}
       style={{ ..., background: darkMode ? '#1e293b' : '#ffffff' }}>
    <pattern id="grid" ...><path ... stroke={darkMode ? '#334155' : '#f3f4f6'} .../></pattern>
    <marker id="arrowhead" ...>...</marker>
    <rect width="100%" height="100%" fill="url(#grid)" />
    <text x={bounds?.svgWidth ? bounds.svgWidth / 2 : 400}
          y={bounds?.svgHeight ? bounds.svgHeight - 10 : 590}
          fill={darkMode ? '#94a3b8' : '#6b7280'}>X Coordinate</text>
    <text x="15" y={bounds?.svgHeight ? bounds.svgHeight / 2 : 300}
          fill={darkMode ? '#94a3b8' : '#6b7280'} ...>Y Coordinate</text>
    {showRoute && scaledRoute.length > 1 && (<g>{scaledRoute.map((current, i) => ...)}</g>)}
    {scaledPoints.map((point, index) => ...)}
    {showRoute && selectedRoutePoint !== null && scaledRoute[selectedRoutePoint] && ...}
  </svg>
  \<close>
\<close>

definition svgRender ::
  "real \<Rightarrow> real \<Rightarrow> real \<Rightarrow> bool \<Rightarrow> solution option \<Rightarrow> bool \<Rightarrow> selection \<Rightarrow> svg_view" where
  "svgRender svgWidth svgHeight padding darkMode solution showRoute sel =
     (case solution of
        None \<Rightarrow> Placeholder
      | Some sol \<Rightarrow>
          (let l = useMemoLayout svgWidth svgHeight padding solution;
               scaledPoints = l_scaledPoints l;
               scaledRoute = l_scaledRoute l;
               routeDistances = l_routeDistances l;
               axisFill = (if darkMode then ''#94a3b8'' else ''#6b7280'')
           in Scene
                \<lparr>svg_viewBox =
                   (case l_bounds l of
                      None \<Rightarrow> (800, 600)
                    | Some b \<Rightarrow> (orElse (b_svgWidth b) 800, orElse (b_svgHeight b) 600)),
                 svg_background = (if darkMode then ''#1e293b'' else ''#ffffff''),
                 svg_gridStroke = (if darkMode then ''#334155'' else ''#f3f4f6''),
                 svg_markers = [arrowhead],
                 svg_axisX =
                   SvgText
                     (case l_bounds l of
                        None \<Rightarrow> 400
                      | Some b \<Rightarrow> if b_svgWidth b \<noteq> 0 then b_svgWidth b / 2 else 400)
                     (case l_bounds l of
                        None \<Rightarrow> 590
                      | Some b \<Rightarrow> if b_svgHeight b \<noteq> 0 then b_svgHeight b - 10 else 590)
                     axisFill ''X Coordinate'',
                 svg_axisY =
                   SvgText 15
                     (case l_bounds l of
                        None \<Rightarrow> 300
                      | Some b \<Rightarrow> if b_svgHeight b \<noteq> 0 then b_svgHeight b / 2 else 300)
                     axisFill ''Y Coordinate'',
                 svg_route =
                   (if showRoute \<and> length scaledRoute > 1
                    then Some (map (svgSegment scaledRoute routeDistances) [0..<length scaledRoute])
                    else None),
                 svg_points =
                   map (svgPoint (selectedOriginalPoint sel) scaledPoints (pointsOf sol))
                       [0..<length scaledPoints],
                 svg_highlight = svgHighlight showRoute (selectedRoutePoint sel) scaledRoute\<rparr>))"

text \<open>
  The component as the application mounts it: the viewport is 800 by 600 with a padding
  of 60, and the theme is read from the document.
\<close>

definition TSPVisualizationSVG ::
  "'a environment_scheme \<Rightarrow> solution option \<Rightarrow> bool \<Rightarrow> selection \<Rightarrow> svg_view" where
  "TSPVisualizationSVG env solution showRoute sel =
     svgRender 800 600 60 (isDarkMode env) solution showRoute sel"

section \<open>The raster renderer (TSPVisualization.tsx)\<close>

text \<open>
  The drawing effect of the canvas renderer issues its commands in sequence; the model is
  the list of the commands that paint, each with the style that is current when it is
  issued. A path that is stroked is the list of its segments (each \<open>moveTo\<close> with the
  \<open>lineTo\<close> that follows it), with the stroke style and the dash pattern; a circle
  that is filled or stroked is \<open>arc\<close> over the full angle. The arguments of the
  constructors are \<open>FillRect x y w h fillStyle\<close>, \<open>StrokeRect x y w h strokeStyle\<close>,
  \<open>StrokePath segments strokeStyle dash\<close>, \<open>FillArc x y radius fillStyle\<close>,
  \<open>StrokeArc x y radius strokeStyle\<close>, \<open>FillText text x y fillStyle\<close> and
  \<open>FillTextRotated text x y angle fillStyle\<close> for a text drawn at the origin after
  \<open>translate(x, y)\<close> and \<open>rotate(angle)\<close>. Line widths, fonts and text alignment
  are left out.
\<close>

datatype command =
    FillRect real real real real string
  | StrokeRect real real real real string
  | StrokePath "(xy \<times> xy) list" string "real list"
  | FillArc real real real string
  | StrokeArc real real real string
  | FillText string real real string
  | FillTextRotated string real real real string

text \<open>
  \<^verbatim>\<open>
  const drawArrow = (fromX, fromY, toX, toY, size = 8) => {
    const angle = Math.atan2(toY - fromY, toX - fromX);
    const arrowLength = size;
    const arrowAngle = Math.PI / 6; // 30 degrees
    const x1 = toX - arrowLength * Math.cos(angle - arrowAngle);
    const y1 = toY - arrowLength * Math.sin(angle - arrowAngle);
    const x2 = toX - arrowLength * Math.cos(angle + arrowAngle);
    const y2 = toY - arrowLength * Math.sin(angle + arrowAngle);
    ctx.beginPath();
    ctx.moveTo(toX, toY); ctx.lineTo(x1, y1);
    ctx.moveTo(toX, toY); ctx.lineTo(x2, y2);
    ctx.stroke();
  };
  \<close>
  It is called inside the loop over the route, where the stroke style is \<open>'#ef4444'\<close>.
  The parameter \<open>size\<close> is written \<open>arrowSize\<close>.
\<close>

definition drawArrow :: "real \<Rightarrow> real \<Rightarrow> real \<Rightarrow> real \<Rightarrow> real \<Rightarrow> command" where
  "drawArrow fromX fromY toX toY arrowSize =
     (let angle = atan2 (toY - fromY) (toX - fromX);
          arrowLength = arrowSize;
          arrowAngle = pi / 6;
          x1 = toX - arrowLength * cos (angle - arrowAngle);
          y1 = toY - arrowLength * sin (angle - arrowAngle);
          x2 = toX - arrowLength * cos (angle + arrowAngle);
          y2 = toY - arrowLength * sin (angle + arrowAngle)
      in StrokePath [(\<lparr>px = toX, py = toY\<rparr>, \<lparr>px = x1, py = y1\<rparr>),
                     (\<lparr>px = toX, py = toY\<rparr>, \<lparr>px = x2, py = y2\<rparr>)]
           ''#ef4444'' [])"

text \<open>
  The body of the loop over the route, for the index \<open>i\<close>:
  \<^verbatim>\<open>
  const current = scaledRoute[i];
  const next = scaledRoute[(i + 1) % scaledRoute.length];
  ctx.beginPath(); ctx.moveTo(current.x, current.y); ctx.lineTo(next.x, next.y); ctx.stroke();
  const arrowX = current.x + (next.x - current.x) * 0.8;
  const arrowY = current.y + (next.y - current.y) * 0.8;
  drawArrow(current.x, current.y, arrowX, arrowY);
  ...
  ctx.beginPath(); ctx.arc(midX + offsetX, midY + offsetY, 10, 0, 2 * Math.PI);
  ctx.fillStyle = '#ef4444'; ctx.fill();
  ctx.strokeStyle = '#ffffff'; ctx.lineWidth = 1; ctx.stroke();
  ctx.fillStyle = '#ffffff'; ...
  ctx.fillText((i + 1).toString(), midX + offsetX, midY + offsetY);
  ctx.strokeStyle = '#ef4444'; ctx.lineWidth = 2;
  \<close>
\<close>

definition canvasSegment :: "xy list \<Rightarrow> nat \<Rightarrow> command list" where
  "canvasSegment scaledRoute i =
     (let current = scaledRoute ! i;
          next = scaledRoute ! ((i + 1) mod length scaledRoute);
          arrowX = px current + (px next - px current) * 0.8;
          arrowY = py current + (py next - py current) * 0.8;
          (ax, ay) = labelAnchor 15 current next
      in [StrokePath [(current, next)] ''#ef4444'' [],
          drawArrow (px current) (py current) arrowX arrowY 8,
          FillArc ax ay 10 ''#ef4444'',
          StrokeArc ax ay 10 ''#ffffff'',
          FillText (decimal (i + 1)) ax ay ''#ffffff''])"

text \<open>
  The body of \<open>points.forEach((point, index) => ...)\<close>. The width of the text
  \<open>'START'\<close> comes from \<open>ctx.measureText\<close> of the browser, under the font
  \<open>'bold 12px Arial'\<close> set just before, and is the parameter \<open>textWidth\<close>.
  \<^verbatim>\<open>
  const scaled = scalePoint(point);
  ctx.beginPath(); ctx.arc(scaled.x, scaled.y, 6, 0, 2 * Math.PI);
  if (index === 0) { ctx.fillStyle = '#22c55e'; } else { ctx.fillStyle = '#3b82f6'; }
  ctx.fill(); ctx.strokeStyle = '#ffffff'; ctx.lineWidth = 2; ctx.stroke();
  if (index === 0) {
    ...
    const textHeight = 12; const padding = 4;
    ctx.fillStyle = '#22c55e';
    ctx.fillRect(scaled.x - textWidth/2 - padding, scaled.y - 25 - textHeight - padding,
                 textWidth + 2 * padding, textHeight + 2 * padding);
    ctx.strokeStyle = '#ffffff'; ctx.lineWidth = 1;
    ctx.strokeRect(... the same rectangle ...);
    ctx.fillStyle = '#ffffff';
    ctx.fillText(text, scaled.x, scaled.y - 25);
  }
  \<close>
\<close>

definition canvasPoint :: "real \<Rightarrow> bounds \<Rightarrow> point list \<Rightarrow> nat \<Rightarrow> command list" where
  "canvasPoint textWidth b points index =
     (let point = points ! index;
          scaled = scalePoint b point;
          textHeight = 12;
          padding = 4
      in [FillArc (px scaled) (py scaled) 6 (if index = 0 then ''#22c55e'' else ''#3b82f6''),
          StrokeArc (px scaled) (py scaled) 6 ''#ffffff'']
         @ (if index = 0
            then [FillRect (px scaled - textWidth / 2 - padding)
                    (py scaled - 25 - textHeight - padding)
                    (textWidth + 2 * padding) (textHeight + 2 * padding) ''#22c55e'',
                  StrokeRect (px scaled - textWidth / 2 - padding)
                    (py scaled - 25 - textHeight - padding)
                    (textWidth + 2 * padding) (textHeight + 2 * padding) ''#ffffff'',
                  FillText ''START'' (px scaled) (py scaled - 25) ''#ffffff'']
            else []))"

text \<open>
  The grid and the captions, drawn last:
  \<^verbatim>\<open>
  ctx.strokeStyle = darkMode ? '#334155' : '#f3f4f6'; ctx.lineWidth = 1; ctx.setLineDash([2, 2]);
  for (let i = 0; i <= 10; i++) { const x = (canvas.width / 10) * i;
    ctx.beginPath(); ctx.moveTo(x, 0); ctx.lineTo(x, canvas.height); ctx.stroke(); }
  for (let i = 0; i <= 10; i++) { const y = (canvas.height / 10) * i;
    ctx.beginPath(); ctx.moveTo(0, y); ctx.lineTo(canvas.width, y); ctx.stroke(); }
  ctx.setLineDash([]);
  ctx.fillStyle = darkMode ? '#94a3b8' : '#6b7280'; ...
  ctx.fillText('X Coordinate', canvas.width / 2, canvas.height - 10);
  ctx.save(); ctx.translate(15, canvas.height / 2); ctx.rotate(-Math.PI / 2);
  ctx.fillText('Y Coordinate', 0, 0); ctx.restore();
  \<close>
\<close>

definition canvasGrid :: "real \<Rightarrow> real \<Rightarrow> bool \<Rightarrow> command list" where
  "canvasGrid width height darkMode =
     (let strokeStyle = (if darkMode then ''#334155'' else ''#f3f4f6'')
      in map (\<lambda>i. StrokePath [(\<lparr>px = (width / 10) * real i, py = 0\<rparr>,
                                \<lparr>px = (width / 10) * real i, py = height\<rparr>)] strokeStyle [2, 2])
             [0..<11]
         @ map (\<lambda>i. StrokePath [(\<lparr>px = 0, py = (height / 10) * real i\<rparr>,
                                  \<lparr>px = width, py = (height / 10) * real i\<rparr>)] strokeStyle [2, 2])
               [0..<11])"

definition canvasAxisLabels :: "real \<Rightarrow> real \<Rightarrow> bool \<Rightarrow> command list" where
  "canvasAxisLabels width height darkMode =
     (let fillStyle = (if darkMode then ''#94a3b8'' else ''#6b7280'')
      in [FillText ''X Coordinate'' (width / 2) (height - 10) fillStyle,
          FillTextRotated ''Y Coordinate'' 15 (height / 2) (- pi / 2) fillStyle])"

text \<open>
  The effect as a whole, for a canvas whose attributes \<open>canvas.width\<close> and
  \<open>canvas.height\<close> read \<open>width\<close> and \<open>height\<close>. Without a solution
  nothing is drawn; with a solution the canvas is cleared with the background of the
  theme, and without points that is all.
  \<^verbatim>\<open>
  if (!canvas || !solution) return;
  ...
  ctx.fillStyle = darkMode ? '#1e293b' : '#ffffff';
  ctx.fillRect(0, 0, canvas.width, canvas.height);
  const points = Array.isArray(solution.originalPoints) ? solution.originalPoints : [];
  const route = Array.isArray(solution.route) ? solution.route : [];
  if (points.length === 0) return;
  ... bounds and scalePoint, with padding = 40 ...
  if (showRoute && route && route.length > 1) {
    const scaledRoute = route.map(scalePoint);
    ... for (let i = 0; i < scaledRoute.length; i++) { ... }
  }
  points.forEach((point, index) => { ... });
  ... grid, captions ...
  \<close>
\<close>

definition canvasDraw ::
  "real \<Rightarrow> real \<Rightarrow> real \<Rightarrow> bool \<Rightarrow> solution option \<Rightarrow> bool \<Rightarrow> command list" where
  "canvasDraw textWidth width height darkMode solution showRoute =
     (case solution of
        None \<Rightarrow> []
      | Some sol \<Rightarrow>
          FillRect 0 0 width height (if darkMode then ''#1e293b'' else ''#ffffff'')
          # (let points = pointsOf sol;
                 r = routeOf sol
             in if length points = 0 then []
                else (let padding = 40;
                          b = computeBounds width height padding points
                      in (if showRoute \<and> length r > 1
                          then (let scaledRoute = map (scalePoint b) r
                                in concat (map (canvasSegment scaledRoute) [0..<length scaledRoute]))
                          else [])
                         @ concat (map (canvasPoint textWidth b points) [0..<length points])
                         @ canvasGrid width height darkMode
                         @ canvasAxisLabels width height darkMode)))"

text \<open>
  The component: nothing is drawn without a drawing context; the state \<open>dimensions\<close>
  (set by \<open>handleResize\<close>) is assigned to the attributes of the canvas, the drawing
  reads the attributes, the width of the text \<open>'START'\<close> is measured by the browser,
  and the theme is read from the document.
  \<^verbatim>\<open>
  const canvas = canvasRef.current;
  if (!canvas || !solution) return;
  const ctx = canvas.getContext('2d');
  if (!ctx) return;
  canvas.width = dimensions.width;
  canvas.height = dimensions.height;
  \<close>
  The canvas element exists whenever there is a solution: the component renders it unless
  \<open>!solution\<close>.
\<close>

definition canvasWidth :: "'a environment_scheme \<Rightarrow> real" where
  "canvasWidth env = real (canvasAttribute 300 (fst (dimensionsOf env)))"

definition canvasHeight :: "'a environment_scheme \<Rightarrow> real" where
  "canvasHeight env = real (canvasAttribute 150 (snd (dimensionsOf env)))"

definition TSPVisualization ::
  "'a environment_scheme \<Rightarrow> solution option \<Rightarrow> bool \<Rightarrow> command list" where
  "TSPVisualization env solution showRoute =
     (if context2d env
      then canvasDraw (measureText env ''bold 12px Arial'' ''START'')
             (canvasWidth env) (canvasHeight env) (isDarkMode env) solution showRoute
      else [])"

section \<open>What the two renderers draw of the tour and of the points\<close>

text \<open>
  The segments of the closed tour through a list of positions, and the markers of the
  points (position and fill colour, the first point green and the others blue), as plain
  data; and how to read both off the output of either renderer: from the canvas commands,
  the stroked paths of one segment in the colour of the route and the filled circles of
  radius 6; from the SVG tree, the lines of the route group and the circles of the point
  groups.
\<close>

definition tourSegments :: "xy list \<Rightarrow> (xy \<times> xy) list" where
  "tourSegments ps = map (\<lambda>i. (ps ! i, ps ! ((i + 1) mod length ps))) [0..<length ps]"

definition pointMarkers :: "bounds \<Rightarrow> point list \<Rightarrow> (xy \<times> string) list" where
  "pointMarkers b points =
     map (\<lambda>i. (scalePoint b (points ! i), if i = 0 then ''#22c55e'' else ''#3b82f6''))
         [0..<length points]"

definition segmentOf :: "command \<Rightarrow> (xy \<times> xy) list" where
  "segmentOf c =
     (case c of
        StrokePath segs style dash \<Rightarrow> if style = ''#ef4444'' \<and> length segs = 1 then segs else []
      | _ \<Rightarrow> [])"

definition markerOf :: "command \<Rightarrow> (xy \<times> string) list" where
  "markerOf c =
     (case c of
        FillArc cx cy radius style \<Rightarrow> if radius = 6 then [(\<lparr>px = cx, py = cy\<rparr>, style)] else []
      | _ \<Rightarrow> [])"

definition canvasSegments :: "command list \<Rightarrow> (xy \<times> xy) list" where
  "canvasSegments cmds = concat (map segmentOf cmds)"

definition canvasMarkers :: "command list \<Rightarrow> (xy \<times> string) list" where
  "canvasMarkers cmds = concat (map markerOf cmds)"

definition lineEnds :: "svg_line \<Rightarrow> xy \<times> xy" where
  "lineEnds l =
     (case l of SvgLine x1 y1 x2 y2 stroke markerEnd \<Rightarrow> (\<lparr>px = x1, py = y1\<rparr>, \<lparr>px = x2, py = y2\<rparr>))"

definition circleMarker :: "svg_circle \<Rightarrow> xy \<times> string" where
  "circleMarker c = (case c of SvgCircle cx cy radius fill stroke \<Rightarrow> (\<lparr>px = cx, py = cy\<rparr>, fill))"

definition textContent :: "svg_text \<Rightarrow> string" where
  "textContent t = (case t of SvgText tx ty fill content \<Rightarrow> content)"

definition svgSegments :: "svg_view \<Rightarrow> (xy \<times> xy) list" where
  "svgSegments v =
     (case v of
        Placeholder \<Rightarrow> []
      | Scene s \<Rightarrow> (case svg_route s of None \<Rightarrow> [] | Some gs \<Rightarrow> map (\<lambda>g. lineEnds (sg_line g)) gs))"

definition svgMarkers :: "svg_view \<Rightarrow> (xy \<times> string) list" where
  "svgMarkers v =
     (case v of
        Placeholder \<Rightarrow> []
      | Scene s \<Rightarrow> map (\<lambda>g. circleMarker (pg_circle g)) (svg_points s))"

text \<open>The texts of the distance labels of the SVG renderer, in the order of the route.\<close>

definition distanceLabels :: "svg_view \<Rightarrow> string list" where
  "distanceLabels v =
     (case v of
        Placeholder \<Rightarrow> []
      | Scene s \<Rightarrow>
          (case svg_route s of None \<Rightarrow> [] | Some gs \<Rightarrow> map (\<lambda>g. textContent (sg_distance g)) gs))"

definition sceneBackground :: "svg_view \<Rightarrow> string option" where
  "sceneBackground v = (case v of Placeholder \<Rightarrow> None | Scene s \<Rightarrow> Some (svg_background s))"

section \<open>Example inputs\<close>

text \<open>A solution with a single point, which is also its whole route.\<close>

definition solo :: solution where
  "solo = \<lparr>pointCount = 1,
           route = Some [\<lparr>px = 2, py = 3, address = None, order = 0\<rparr>],
           originalPoints = Some [\<lparr>px = 2, py = 3, address = None\<rparr>],
           totalDistance = None\<rparr>"

text \<open>Two points that are far apart in \<open>y\<close> and close in \<open>x\<close>.\<close>

definition tall :: "point list" where
  "tall = [\<lparr>px = 0, py = 0, address = None\<rparr>, \<lparr>px = 1, py = 100, address = None\<rparr>]"

text \<open>Two points and the route through them, in the order of the upload.\<close>

definition pair :: solution where
  "pair = \<lparr>pointCount = 2,
           route = Some [\<lparr>px = 0, py = 0, address = None, order = 0\<rparr>,
                         \<lparr>px = 1, py = 1, address = None, order = 1\<rparr>],
           originalPoints = Some [\<lparr>px = 0, py = 0, address = None\<rparr>,
                                  \<lparr>px = 1, py = 1, address = None\<rparr>],
           totalDistance = None\<rparr>"

text \<open>The triangle (0,0), (3,4), (6,0), visited in this order; its sides are 5, 5 and 6.\<close>

definition triangleSolution :: solution where
  "triangleSolution =
     \<lparr>pointCount = 3,
      route = Some [\<lparr>px = 0, py = 0, address = None, order = 0\<rparr>,
                    \<lparr>px = 3, py = 4, address = None, order = 1\<rparr>,
                    \<lparr>px = 6, py = 0, address = None, order = 2\<rparr>],
      originalPoints = Some [\<lparr>px = 0, py = 0, address = None\<rparr>,
                             \<lparr>px = 3, py = 4, address = None\<rparr>,
                             \<lparr>px = 6, py = 0, address = None\<rparr>],
      totalDistance = Some 16\<rparr>"

text \<open>
  Two points whose \<open>x\<close> coordinates are large against their distance from each other.
\<close>

definition wide :: "point list" where
  "wide = [\<lparr>px = 7000000000000000, py = 0, address = None\<rparr>,
           \<lparr>px = 7000000000000001, py = 1 / 2, address = None\<rparr>]"

text \<open>
  A browser for the examples: the root element of the document has the attribute
  \<open>data-theme\<close> with the given value, or not at all, and no other attribute; the
  container of the canvas has the given \<open>clientWidth\<close>; the canvas gives a drawing
  context, in which every text measures \<open>startWidth\<close>.
\<close>

definition browser :: "string option \<Rightarrow> int option \<Rightarrow> real \<Rightarrow> environment" where
  "browser theme clientWidth startWidth =
     \<lparr>rootAttributes = (\<lambda>a. if a = ''data-theme'' then theme else None),
      containerClientWidth = clientWidth,
      context2d = True,
      measureText = (\<lambda>font content. startWidth)\<rparr>"

text \<open>
  A second browser, which differs from \<open>browser None (Some 832) 40\<close> in the attributes
  of the root element and in the width of every text but \<open>'START'\<close>.
\<close>

definition plainBrowser :: environment where
  "plainBrowser =
     \<lparr>rootAttributes = (\<lambda>a. if a = ''lang'' then Some ''en'' else None),
      containerClientWidth = Some 832,
      context2d = True,
      measureText = (\<lambda>font content. if content = ''START'' then 40 else 0)\<rparr>"

section \<open>Properties of the rounding\<close>

lemma roundHalfEven_error: "\<bar>of_int (roundHalfEven t) - t\<bar> \<le> 1 / 2"
  unfolding roundHalfEven_def Let_def by (auto; linarith)

lemma roundHalfEven_nonneg: "0 \<le> t \<Longrightarrow> 0 \<le> roundHalfEven t"
  unfolding roundHalfEven_def Let_def by (auto simp: ; linarith?)

lemma roundHalfEven_of_int [simp]: "roundHalfEven (of_int k) = k"
  by (simp add: roundHalfEven_def)

lemma ulp_pos: "0 < ulp z"
  by (simp add: ulp_def)

lemma floor_log2_bounds:
  assumes "z \<noteq> 0"
  shows "2 powi \<lfloor>log 2 \<bar>z\<bar>\<rfloor> \<le> \<bar>z\<bar>" and "\<bar>z\<bar> < 2 powi (\<lfloor>log 2 \<bar>z\<bar>\<rfloor> + 1)"
proof -
  have pos: "0 < \<bar>z\<bar>" using assms by simp
  from floor_log_eq_powr_iff [OF pos, of 2 "\<lfloor>log 2 \<bar>z\<bar>\<rfloor>"]
  have "2 powr real_of_int \<lfloor>log 2 \<bar>z\<bar>\<rfloor> \<le> \<bar>z\<bar>"
    and "\<bar>z\<bar> < 2 powr (real_of_int \<lfloor>log 2 \<bar>z\<bar>\<rfloor> + 1)"
    by simp_all
  moreover have "2 powr (real_of_int \<lfloor>log 2 \<bar>z\<bar>\<rfloor> + 1) = 2 powr real_of_int (\<lfloor>log 2 \<bar>z\<bar>\<rfloor> + 1)"
    by simp
  ultimately show "2 powi \<lfloor>log 2 \<bar>z\<bar>\<rfloor> \<le> \<bar>z\<bar>" and "\<bar>z\<bar> < 2 powi (\<lfloor>log 2 \<bar>z\<bar>\<rfloor> + 1)"
    by (simp_all only: powr_real_of_int' [of 2, simplified])
qed

lemma floor_log2_unique:
  assumes "2 powi e \<le> \<bar>z\<bar>" "\<bar>z\<bar> < 2 powi (e + 1)"
  shows "\<lfloor>log 2 \<bar>z\<bar>\<rfloor> = e"
proof -
  have "0 < (2::real) powi e" by simp
  with assms have pos: "0 < \<bar>z\<bar>" by linarith
  have "2 powr real_of_int e \<le> \<bar>z\<bar>" "\<bar>z\<bar> < 2 powr (real_of_int e + 1)"
    using assms powr_real_of_int' [of 2 e] powr_real_of_int' [of 2 "e + 1"] by simp_all
  then show ?thesis
    using floor_log_eq_powr_iff [OF pos, of 2 e] by simp
qed

lemma powi_half: "(2::real) powi (k - 1) = 2 powi k / 2"
  by (simp add: power_int_diff)

lemma ulp_half: "ulp z / 2 = 2 powi (binade z - 53)"
proof -
  have "binade z - 52 - 1 = binade z - 53" by simp
  then show ?thesis
    unfolding ulp_def using powi_half [of "binade z - 52"] by simp
qed

lemma fl_half_ulp: "\<bar>fl z - z\<bar> \<le> ulp z / 2"
proof (cases "z = 0")
  case True
  then show ?thesis using ulp_pos [of z] by (simp add: fl_def)
next
  case False
  have "fl z - z = (of_int (roundHalfEven (z / ulp z)) - z / ulp z) * ulp z"
    using False ulp_pos [of z] by (simp add: fl_def field_simps)
  then have "\<bar>fl z - z\<bar> = \<bar>of_int (roundHalfEven (z / ulp z)) - z / ulp z\<bar> * ulp z"
    using ulp_pos [of z] by (simp add: abs_mult)
  also have "\<dots> \<le> 1 / 2 * ulp z"
    using roundHalfEven_error [of "z / ulp z"] ulp_pos [of z]
    by (intro mult_right_mono) simp_all
  finally show ?thesis by simp
qed

lemma binade_cases:
  obtains (normal) "binade z = \<lfloor>log 2 \<bar>z\<bar>\<rfloor>" "- 1022 \<le> binade z"
  | (subnormal) "binade z = - 1022" "\<lfloor>log 2 \<bar>z\<bar>\<rfloor> < - 1022"
proof -
  define e where "e = \<lfloor>log 2 \<bar>z\<bar>\<rfloor>"
  have "binade z = max e (- 1022)" by (simp only: binade_def e_def)
  then have "(binade z = e \<and> - 1022 \<le> binade z) \<or> (binade z = - 1022 \<and> e < - 1022)"
    by (auto simp: max_def)
  then show thesis using normal subnormal unfolding e_def by blast
qed

lemma fl_error: "\<bar>fl z - z\<bar> \<le> unitRoundoff * \<bar>z\<bar> + tiny"
proof (cases "z = 0")
  case True
  then show ?thesis by (simp add: fl_def unitRoundoff_def tiny_def)
next
  case False
  note half = fl_half_ulp [of z]
  have upos: "0 \<le> unitRoundoff * \<bar>z\<bar>" and tpos: "0 \<le> tiny"
    by (simp_all add: unitRoundoff_def tiny_def)
  show ?thesis
  proof (cases z rule: binade_cases)
    case normal
    have "ulp z / 2 = 2 powi (\<lfloor>log 2 \<bar>z\<bar>\<rfloor> + (- 53))"
      by (simp add: ulp_half normal(1))
    also have "\<dots> = 2 powi \<lfloor>log 2 \<bar>z\<bar>\<rfloor> * unitRoundoff"
      unfolding unitRoundoff_def by (rule power_int_add) simp
    also have "\<dots> \<le> \<bar>z\<bar> * unitRoundoff"
      using floor_log2_bounds(1) [OF False]
      by (intro mult_right_mono) (simp_all add: unitRoundoff_def)
    finally show ?thesis using half tpos by (simp add: mult.commute)
  next
    case subnormal
    have "(- 1022 :: int) - 53 = - 1075" by simp
    then have "ulp z / 2 = tiny"
      unfolding ulp_half subnormal(1) tiny_def by (rule arg_cong)
    with half upos show ?thesis by linarith
  qed
qed

lemma fl_0 [simp]: "fl 0 = 0"
  by (simp add: fl_def)

lemma fl_nonneg: "0 \<le> z \<Longrightarrow> 0 \<le> fl z"
  using ulp_pos [of z] roundHalfEven_nonneg [of "z / ulp z"]
  by (simp add: fl_def)

lemma fl_binade:
  assumes "2 powi e \<le> \<bar>z\<bar>" "\<bar>z\<bar> < 2 powi (e + 1)" "- 1022 \<le> e"
  shows "fl z = of_int (roundHalfEven (z / 2 powi (e - 52))) * 2 powi (e - 52)"
proof -
  have "0 < (2::real) powi e" by simp
  with assms(1) have "0 < \<bar>z\<bar>" by linarith
  then have nz: "z \<noteq> 0" by simp
  have "binade z = e"
    using floor_log2_unique [OF assms(1,2)] assms(3) by (simp add: binade_def)
  then show ?thesis using nz by (simp add: fl_def ulp_def)
qed

lemma fl_exact:
  assumes z: "z = of_int m * 2 powi j" and m: "\<bar>m\<bar> < 2 ^ 53" and j: "- 1074 \<le> j"
  shows "fl z = z"
proof (cases "m = 0")
  case True
  then show ?thesis by (simp add: z)
next
  case False
  then have nz: "z \<noteq> 0" by (simp add: z)
  have "\<bar>z\<bar> = of_int \<bar>m\<bar> * 2 powi j" by (simp add: z abs_mult)
  also have "\<dots> < 2 ^ 53 * 2 powi j"
  proof (rule mult_strict_right_mono)
    have "real_of_int \<bar>m\<bar> < real_of_int (2 ^ 53)" using m by (simp only: of_int_less_iff)
    then show "real_of_int \<bar>m\<bar> < 2 ^ 53" by simp
  qed simp
  also have "\<dots> = 2 powi (j + 53)"
    using power_int_add [of "2::real" j 53] by (simp add: mult.commute)
  finally have up: "\<bar>z\<bar> < 2 powi (j + 53)" .
  have "\<lfloor>log 2 \<bar>z\<bar>\<rfloor> < j + 53"
  proof (rule ccontr)
    assume "\<not> \<lfloor>log 2 \<bar>z\<bar>\<rfloor> < j + 53"
    then have "(2::real) powi (j + 53) \<le> 2 powi \<lfloor>log 2 \<bar>z\<bar>\<rfloor>"
      by (intro power_int_increasing) simp_all
    with floor_log2_bounds(1) [OF nz] up show False by linarith
  qed
  then have b: "binade z \<le> j + 52" using j by (simp add: binade_def)
  define k where "k = nat (j + 52 - binade z)"
  have k: "int k = j + 52 - binade z" using b by (simp add: k_def)
  have "z / ulp z = of_int m * (2 powi j / 2 powi (binade z - 52))"
    by (simp add: z ulp_def)
  also have "2 powi j / 2 powi (binade z - 52) = (2::real) powi (j - (binade z - 52))"
    by (simp add: power_int_diff)
  also have "j - (binade z - 52) = int k" using k by simp
  finally have "z / ulp z = of_int (m * 2 ^ k)" by simp
  then have "roundHalfEven (z / ulp z) = m * 2 ^ k"
    by (simp only: roundHalfEven_of_int)
  then have "fl z = of_int (m * 2 ^ k) * ulp z"
    using nz by (simp add: fl_def)
  also have "\<dots> = z / ulp z * ulp z"
    using \<open>z / ulp z = of_int (m * 2 ^ k)\<close> by simp
  also have "\<dots> = z" using ulp_pos [of z] by simp
  finally show ?thesis .
qed

lemma fl_of_int: "\<bar>m\<bar> < 2 ^ 53 \<Longrightarrow> fl (of_int m) = of_int m"
  using fl_exact [of "of_int m" m 0] by simp

lemma fl_numeral [simp]: "(numeral n :: int) < 2 ^ 53 \<Longrightarrow> fl (numeral n) = numeral n"
  using fl_of_int [of "numeral n"] by simp

lemma fl_neg_numeral [simp]: "(numeral n :: int) < 2 ^ 53 \<Longrightarrow> fl (- numeral n) = - numeral n"
  using fl_of_int [of "- numeral n"] by simp

lemma fl_1 [simp]: "fl 1 = 1"
  using fl_of_int [of 1] by simp

lemma fl_quarters: "\<bar>m\<bar> < 2 ^ 53 \<Longrightarrow> fl (of_int m / 4) = of_int m / 4"
  using fl_exact [of "of_int m / 4" m "- 2"] by (simp add: power_int_minus field_simps)

lemma unitRoundoff_eq: "unitRoundoff = 1 / 2 ^ 53"
  by (simp add: unitRoundoff_def power_int_minus field_simps)

lemma tiny_le: "tiny \<le> 1 / 2 ^ 200"
proof -
  have "(2::real) powi (- 1075) \<le> 2 powi (- 200)"
    by (rule power_int_increasing) simp_all
  then show ?thesis by (simp add: tiny_def power_int_minus field_simps)
qed

lemma tiny_nonneg: "0 \<le> tiny"
  by (simp add: tiny_def)

lemma fl_rel: "\<bar>fl z - z\<bar> \<le> \<bar>z\<bar> / 2 ^ 53 + 1 / 2 ^ 200"
  using fl_error [of z] tiny_le by (simp add: unitRoundoff_eq)

lemma fl_err_small: "\<bar>z\<bar> \<le> 2 ^ 20 \<Longrightarrow> \<bar>fl z - z\<bar> \<le> 1 / 2 ^ 30"
  using fl_rel [of z] by simp

lemma fl_err_49: "\<bar>z\<bar> \<le> 2 ^ 49 \<Longrightarrow> \<bar>fl z - z\<bar> \<le> 1 / 8"
  using fl_rel [of z] by simp

lemma fl_between:
  "z - (\<bar>z\<bar> / 2 ^ 53 + 1 / 2 ^ 200) \<le> fl z" "fl z \<le> z + (\<bar>z\<bar> / 2 ^ 53 + 1 / 2 ^ 200)"
  using fl_rel [of z] by (simp_all only: abs_le_iff) linarith+

lemma fl_small_between:
  assumes "\<bar>z\<bar> \<le> 2 ^ 20"
  shows "z - 1 / 2 ^ 30 \<le> fl z" "fl z \<le> z + 1 / 2 ^ 30"
  using fl_err_small [OF assms] by (simp_all only: abs_le_iff) linarith+

lemma fl_49_between:
  assumes "\<bar>z\<bar> \<le> 2 ^ 49"
  shows "z - 1 / 8 \<le> fl z" "fl z \<le> z + 1 / 8"
  using fl_err_49 [OF assms] by (simp_all only: abs_le_iff) linarith+

lemma fl_real_nat: "n < 2 ^ 53 \<Longrightarrow> fl (real n) = real n"
  using fl_of_int [of "int n"] by simp

lemma range_rounded:
  fixes D :: real
  assumes "D = 0 \<or> (1 / 2 ^ 100 \<le> D \<and> D \<le> 2 ^ 100)"
    and "r = orElse (fl D) 1" and "R = orElse D 1"
  shows "0 < r" and "r \<le> 2 ^ 101" and "D \<le> (1 + 1 / 2 ^ 51) * r" and "R \<le> (1 + 1 / 2 ^ 51) * r"
proof -
  have "0 < r \<and> r \<le> 2 ^ 101 \<and> D \<le> (1 + 1 / 2 ^ 51) * r \<and> R \<le> (1 + 1 / 2 ^ 51) * r"
  proof (cases "D = 0")
    case True
    then show ?thesis using assms(2,3) by (simp add: orElse_def)
  next
    case False
    with assms(1) have D: "1 / 2 ^ 100 \<le> D" "D \<le> 2 ^ 100" by auto
    have "(0::real) < 1 / 2 ^ 100" by simp
    with D(1) have Dpos: "0 < D" by linarith
    then have absD: "\<bar>D\<bar> = D" by simp
    note b = fl_between [of D, unfolded absD]
    have small: "1 / 2 ^ 200 \<le> D / 2 ^ 53"
      using D(1) by simp
    have lower: "D - D / 2 ^ 52 \<le> fl D" using b(1) small by simp
    have upper: "fl D \<le> D + D / 2 ^ 52" using b(2) small by simp
    have flpos: "0 < fl D" using lower Dpos by simp
    then have r: "r = fl D" and R: "R = D"
      using assms(2,3) False by (simp_all add: orElse_def)
    have "D \<le> 2 * fl D" using lower Dpos by simp
    then have "D \<le> fl D + fl D / 2 ^ 51" using lower by simp
    then have c: "D \<le> (1 + 1 / 2 ^ 51) * r" unfolding r by (simp add: algebra_simps)
    have "r \<le> 2 ^ 101"
      using upper D(2) unfolding r by simp
    with flpos c show ?thesis by (simp add: r R)
  qed
  then show "0 < r" and "r \<le> 2 ^ 101" and "D \<le> (1 + 1 / 2 ^ 51) * r"
    and "R \<le> (1 + 1 / 2 ^ 51) * r" by simp_all
qed

lemma axis_rounded:
  fixes lo hi x S r :: real and w p :: nat
  assumes x: "lo \<le> x" "x \<le> hi"
    and ext: "hi - lo = 0 \<or> (1 / 2 ^ 100 \<le> hi - lo \<and> hi - lo \<le> 2 ^ 100)"
    and cond: "\<bar>lo\<bar> \<le> 2 ^ 30 * orElse (hi - lo) 1" "\<bar>x\<bar> \<le> 2 ^ 30 * orElse (hi - lo) 1"
    and vp: "1 \<le> p" "2 * p \<le> w" "w \<le> 2 ^ 16"
    and r: "r = orElse (fl (hi - lo)) 1"
    and S: "0 \<le> S" "S \<le> fl (fl (real w - fl (2 * real p)) / r)"
  shows "real p - 1 / 2 \<le> fl (fl (x * S) + fl (fl (fl (real w - fl (r * S)) / 2) - fl (lo * S)))"
    and "fl (fl (x * S) + fl (fl (fl (real w - fl (r * S)) / 2) - fl (lo * S))) \<le> real w - real p + 1 / 2"
proof -
  define D where "D = hi - lo"
  define R where "R = orElse D 1"
  define A where "A = real w - 2 * real p"
  note rr = range_rounded [OF ext [folded D_def] r [folded D_def] R_def]
  have W: "real w \<le> 2 ^ 16" using vp(3) by (metis of_nat_le_iff of_nat_numeral of_nat_power)
  have P1: "1 \<le> real p" using vp(1) by simp
  have PW: "2 * real p \<le> real w" using vp(2) by (metis of_nat_le_iff of_nat_mult of_nat_numeral)
  have A0: "0 \<le> A" and A16: "A \<le> 2 ^ 16" using PW W P1 by (simp_all add: A_def)
  have p53: "2 * p < 2 ^ 53" and w53: "w - 2 * p < 2 ^ 53"
    using vp by simp_all
  have "fl (2 * real p) = 2 * real p"
    using fl_real_nat [OF p53] by simp
  moreover have "fl (real w - 2 * real p) = real w - 2 * real p"
    using fl_real_nat [OF w53] vp(2) by (simp add: of_nat_diff)
  ultimately have flA: "fl (real w - fl (2 * real p)) = A" by (simp add: A_def)
  have Ar: "0 \<le> A / r" using A0 rr(1) by simp
  have "fl (A / r) \<le> A / r + (A / r / 2 ^ 53 + 1 / 2 ^ 200)"
    using fl_between(2) [of "A / r"] Ar by simp
  with S(2) have "S \<le> A / r + (A / r / 2 ^ 53 + 1 / 2 ^ 200)" by (simp add: flA)
  then have "r * S \<le> r * (A / r + (A / r / 2 ^ 53 + 1 / 2 ^ 200))"
    using rr(1) by (intro mult_left_mono) simp_all
  also have "\<dots> = A + A / 2 ^ 53 + r / 2 ^ 200"
    using rr(1) by (simp add: field_simps)
  finally have B1: "r * S \<le> A + A / 2 ^ 53 + r / 2 ^ 200" .
  define B where "B = r * S"
  have B0: "0 \<le> B" using rr(1) S(1) by (simp add: B_def)
  have BA: "B \<le> A + 1 / 2 ^ 30"
    using B1 A16 A0 rr(2) by (simp add: B_def)
  have RS: "R * S \<le> (1 + 1 / 2 ^ 51) * B"
  proof -
    have "R * S \<le> ((1 + 1 / 2 ^ 51) * r) * S"
      using rr(4) S(1) by (intro mult_right_mono)
    then show ?thesis by (simp add: B_def mult.assoc)
  qed
  have DS: "D * S \<le> (1 + 1 / 2 ^ 51) * B"
  proof -
    have "D * S \<le> ((1 + 1 / 2 ^ 51) * r) * S"
      using rr(3) S(1) by (intro mult_right_mono)
    then show ?thesis by (simp add: B_def mult.assoc)
  qed
  have RS17: "R * S \<le> 2 ^ 16 + 1"
    using RS BA A16 B0 by simp
  have prod: "\<bar>v * S\<bar> \<le> 2 ^ 47" if "\<bar>v\<bar> \<le> 2 ^ 30 * R" for v
  proof -
    have "\<bar>v * S\<bar> = \<bar>v\<bar> * S" using S(1) by (simp add: abs_mult)
    also have "\<dots> \<le> (2 ^ 30 * R) * S" using that S(1) by (intro mult_right_mono)
    also have "\<dots> = 2 ^ 30 * (R * S)" by simp
    also have "\<dots> \<le> 2 ^ 30 * (2 ^ 16 + 1)" using RS17 by simp
    also have "\<dots> \<le> 2 ^ 47" by simp
    finally show ?thesis .
  qed
  define xS where "xS = x * S"
  define lS where "lS = lo * S"
  have xS47: "\<bar>xS\<bar> \<le> 2 ^ 47" and lS47: "\<bar>lS\<bar> \<le> 2 ^ 47"
    using prod cond by (simp_all add: xS_def lS_def R_def D_def)
  have d0: "0 \<le> xS - lS"
    using x(1) S(1) by (simp add: xS_def lS_def left_diff_distrib [symmetric])
  have "xS - lS = (x - lo) * S" by (simp add: xS_def lS_def left_diff_distrib)
  also have "\<dots> \<le> D * S" using x(2) S(1) by (intro mult_right_mono) (simp_all add: D_def)
  finally have d1: "xS - lS \<le> B + 1 / 2 ^ 30"
    using DS BA A16 B0 by simp
  define t where "t = fl B"
  define c where "c = fl (real w - t)"
  define g where "g = fl (c / 2)"
  define bl where "bl = fl lS"
  define a where "a = fl xS"
  define ox where "ox = fl (g - bl)"
  define X where "X = fl (a + ox)"
  have t: "B - 1 / 2 ^ 30 \<le> t" "t \<le> B + 1 / 2 ^ 30"
    unfolding t_def using B0 BA A16 by (intro fl_small_between; simp)+
  have c: "real w - t - 1 / 2 ^ 30 \<le> c" "c \<le> real w - t + 1 / 2 ^ 30"
    unfolding c_def using t B0 BA A16 W PW P1 by (intro fl_small_between; simp add: A_def abs_le_iff)+
  have g: "c / 2 - 1 / 2 ^ 30 \<le> g" "g \<le> c / 2 + 1 / 2 ^ 30"
    unfolding g_def using c t B0 BA A16 W PW P1 by (intro fl_small_between; simp add: A_def abs_le_iff)+
  have bl: "lS - 1 / 8 \<le> bl" "bl \<le> lS + 1 / 8"
    unfolding bl_def using lS47 by (intro fl_49_between; simp)+
  have a: "xS - 1 / 8 \<le> a" "a \<le> xS + 1 / 8"
    unfolding a_def using xS47 by (intro fl_49_between; simp)+
  have ox: "g - bl - 1 / 8 \<le> ox" "ox \<le> g - bl + 1 / 8"
    unfolding ox_def using g c t bl lS47 B0 BA A16 W PW P1
    by (intro fl_49_between; simp add: A_def abs_le_iff)+
  have X: "a + ox - 1 / 2 ^ 30 \<le> X" "X \<le> a + ox + 1 / 2 ^ 30"
    unfolding X_def using a ox g c t bl d0 d1 B0 BA A16 W PW P1
    by (intro fl_small_between; simp add: A_def abs_le_iff)+
  have lower: "real p - 1 / 2 \<le> X"
    using X a ox g c t bl d0 d1 B0 BA A16 W PW P1 by (simp add: A_def)
  have upper: "X \<le> real w - real p + 1 / 2"
    using X a ox g c t bl d0 d1 B0 BA A16 W PW P1 by (simp add: A_def)
  have "X = fl (fl (x * S) + fl (fl (fl (real w - fl (r * S)) / 2) - fl (lo * S)))"
    by (simp add: X_def a_def ox_def g_def c_def t_def bl_def B_def xS_def lS_def)
  with lower upper show
    "real p - 1 / 2 \<le> fl (fl (x * S) + fl (fl (fl (real w - fl (r * S)) / 2) - fl (lo * S)))"
    "fl (fl (x * S) + fl (fl (fl (real w - fl (r * S)) / 2) - fl (lo * S))) \<le> real w - real p + 1 / 2"
    by simp_all
qed

text \<open>Doubles that the examples meet.\<close>

lemma fl_half: "fl (1 / 2) = 1 / 2"
  using fl_exact [of "1 / 2" 1 "- 1"] by (simp add: power_int_minus)

lemma fl_1203_quarters: "fl (1203 / 4) = 1203 / 4"
  using fl_quarters [of 1203] by simp

lemma fl_quotient_above: "- 8 \<le> fl (- 26 / 100)"
  using fl_between(1) [of "- 26 / 100"] by simp

lemma fl_product: "fl 4760000000000000000 = 4760000000000000000"
  using fl_exact [of 4760000000000000000 72631835937500 16] by simp

lemma fl_offset: "fl (- 4759999999999999940) = - 4760000000000000000"
  using fl_binade [of 62 "- 4759999999999999940"]
  by (simp add: roundHalfEven_def)

lemma fl_scaled: "fl 4760000000000000680 = 4760000000000001024"
  using fl_binade [of 62 4760000000000000680]
  by (simp add: roundHalfEven_def)



section \<open>Properties of the route metrics\<close>

lemma getRouteDistances_loop_eq:
  "i \<le> length r \<Longrightarrow>
   getRouteDistances_loop r i distances =
     distances @ map (\<lambda>k. calculateDistance (r ! k) (r ! ((k + 1) mod length r)))
                     [i..<length r]"
proof (induction r i distances rule: getRouteDistances_loop.induct)
  case (1 r i distances)
  show ?case
  proof (cases "i < length r")
    case True
    then have "[i..<length r] = i # [Suc i..<length r]"
      by (simp add: upt_conv_Cons)
    with True "1.IH" [OF True refl refl] show ?thesis
      by (subst getRouteDistances_loop.simps) (simp add: Let_def)
  next
    case False
    with "1.prems" show ?thesis
      by (subst getRouteDistances_loop.simps) simp
  qed
qed

lemma getRouteDistances_map:
  "getRouteDistances r =
     map (\<lambda>k. calculateDistance (r ! k) (r ! ((k + 1) mod length r)))
         [0..<length r]"
  by (simp add: getRouteDistances_def getRouteDistances_loop_eq)

lemma length_getRouteDistances: "length (getRouteDistances r) = length r"
  by (simp add: getRouteDistances_map)

lemma nth_getRouteDistances:
  "i < length r \<Longrightarrow>
   getRouteDistances r ! i =
     calculateDistance (r ! i) (r ! ((i + 1) mod length r))"
  by (simp add: getRouteDistances_map)

lemma calculateDistance_nonneg: "0 \<le> calculateDistance p q"
  by (simp add: calculateDistance_def Let_def)

lemma calculateDistance_sqrt:
  "calculateDistance p q = sqrt ((px q - px p)\<^sup>2 + (py q - py p)\<^sup>2)"
  by (simp add: calculateDistance_def Let_def power2_eq_square)

lemma getRouteDistances_nonneg: "d \<in> set (getRouteDistances r) \<Longrightarrow> 0 \<le> d"
  by (auto simp: getRouteDistances_map calculateDistance_nonneg)

text \<open>A closed route for the examples: the triangle (0,0), (3,4), (6,0) with sides 5, 5, 6.\<close>

lemma sqrt_25: "sqrt 25 = 5"
  using real_sqrt_abs [of 5] by simp

lemma sqrt_36: "sqrt 36 = 6"
  using real_sqrt_abs [of 6] by simp

lemma getRouteDistances_triangle:
  "getRouteDistances [\<lparr>px = 0, py = 0\<rparr>, \<lparr>px = 3, py = 4\<rparr>, \<lparr>px = 6, py = 0\<rparr>] = [5, 5, 6]"
  by (simp add: getRouteDistances_map calculateDistance_def sqrt_25 sqrt_36 upt_rec)

lemma useMemoLayout_Some:
  assumes "pointsOf sol \<noteq> []"
  shows "useMemoLayout w h p (Some sol) =
    \<lparr>l_scaledPoints = map (scalePoint (computeBounds w h p (pointsOf sol))) (pointsOf sol),
     l_scaledRoute = map (scalePoint (computeBounds w h p (pointsOf sol))) (routeOf sol),
     l_bounds = Some (computeBounds w h p (pointsOf sol)),
     l_routeDistances = (if 1 < length (routeOf sol) then getRouteDistances (routeOf sol) else [])\<rparr>"
  using assms by (simp add: useMemoLayout_def Let_def getRouteDistances_map)

lemma useMemoLayout_empty:
  assumes "pointsOf sol = []"
  shows "useMemoLayout w h p (Some sol) = emptyLayout"
  using assms by (simp add: useMemoLayout_def Let_def)

lemma getRouteDistances_triangleSolution:
  "getRouteDistances (routeOf triangleSolution) = [5, 5, 6]"
  by (simp add: triangleSolution_def routeOf_def getRouteDistances_map calculateDistance_def
      sqrt_25 sqrt_36 upt_rec)

text \<open>
  Claim C2. For every route, \<open>getRouteDistances\<close> returns as many distances as the
  route has points; the distance at index \<open>i\<close> is the Euclidean distance from point
  \<open>i\<close> to point \<open>(i + 1) mod length\<close>, and the last one is the distance from the last
  point back to the first. The route distances that the SVG renderer computes for itself
  are the same list, when there are points and the route has more than one.
\<close>

theorem C2_segment_distances:
  "length (getRouteDistances r) = length r \<and>
   (\<forall>i<length r. getRouteDistances r ! i =
       sqrt ((px (r ! ((i + 1) mod length r)) - px (r ! i))\<^sup>2 +
             (py (r ! ((i + 1) mod length r)) - py (r ! i))\<^sup>2)) \<and>
   (r \<noteq> [] \<longrightarrow> last (getRouteDistances r) = calculateDistance (last r) (hd r)) \<and>
   (pointsOf sol \<noteq> [] \<and> 1 < length (routeOf sol) \<longrightarrow>
      l_routeDistances (svgLayout (Some sol)) = getRouteDistances (routeOf sol))"
proof (intro conjI allI impI)
  show "length (getRouteDistances r) = length r" by (rule length_getRouteDistances)
next
  fix i assume "i < length r"
  then show "getRouteDistances r ! i =
       sqrt ((px (r ! ((i + 1) mod length r)) - px (r ! i))\<^sup>2 +
             (py (r ! ((i + 1) mod length r)) - py (r ! i))\<^sup>2)"
    by (simp only: nth_getRouteDistances calculateDistance_sqrt)
next
  assume ne: "r \<noteq> []"
  then have "getRouteDistances r \<noteq> []"
    using length_getRouteDistances [of r] by auto
  then have "last (getRouteDistances r) = getRouteDistances r ! (length r - 1)"
    by (simp add: last_conv_nth length_getRouteDistances)
  also have "\<dots> = calculateDistance (r ! (length r - 1)) (r ! (((length r - 1) + 1) mod length r))"
    using ne by (intro nth_getRouteDistances) simp
  also have "\<dots> = calculateDistance (last r) (hd r)"
    using ne by (simp add: last_conv_nth hd_conv_nth)
  finally show "last (getRouteDistances r) = calculateDistance (last r) (hd r)" .
next
  assume "pointsOf sol \<noteq> [] \<and> 1 < length (routeOf sol)"
  then show "l_routeDistances (svgLayout (Some sol)) = getRouteDistances (routeOf sol)"
    by (simp add: svgLayout_def useMemoLayout_Some)
qed

theorem C2_witness:
  "(2::nat) < length [\<lparr>px = 0, py = 0\<rparr>, \<lparr>px = 3, py = 4\<rparr>, \<lparr>px = 6, py = 0\<rparr>] \<and>
   getRouteDistances [\<lparr>px = 0, py = 0\<rparr>, \<lparr>px = 3, py = 4\<rparr>, \<lparr>px = 6, py = 0\<rparr>] ! 2 = 6 \<and>
   [\<lparr>px = 0, py = 0\<rparr>, \<lparr>px = 3, py = 4\<rparr>, \<lparr>px = 6, py = 0\<rparr>] \<noteq> [] \<and>
   last (getRouteDistances [\<lparr>px = 0, py = 0\<rparr>, \<lparr>px = 3, py = 4\<rparr>, \<lparr>px = 6, py = 0\<rparr>]) = 6 \<and>
   pointsOf triangleSolution \<noteq> [] \<and> 1 < length (routeOf triangleSolution) \<and>
   l_routeDistances (svgLayout (Some triangleSolution)) = [5, 5, 6]"
proof -
  have ne: "pointsOf triangleSolution \<noteq> []"
    by (simp add: triangleSolution_def pointsOf_def)
  have len: "1 < length (routeOf triangleSolution)"
    by (simp add: triangleSolution_def routeOf_def)
  note C2 = C2_segment_distances
    [of "[\<lparr>px = 0, py = 0\<rparr>, \<lparr>px = 3, py = 4\<rparr>, \<lparr>px = 6, py = 0\<rparr>]" triangleSolution]
  from C2 ne len have "l_routeDistances (svgLayout (Some triangleSolution)) = [5, 5, 6]"
    by (simp add: getRouteDistances_triangleSolution)
  moreover from C2 sqrt_36
  have "getRouteDistances [\<lparr>px = 0, py = 0\<rparr>, \<lparr>px = 3, py = 4\<rparr>, \<lparr>px = 6, py = 0\<rparr>] ! 2 = 6"
    and "last (getRouteDistances [\<lparr>px = 0, py = 0\<rparr>, \<lparr>px = 3, py = 4\<rparr>, \<lparr>px = 6, py = 0\<rparr>]) = 6"
    by (simp_all add: calculateDistance_def)
  ultimately show ?thesis using ne len by simp
qed

section \<open>Properties of the route table\<close>

lemma routeRows_loop_eq:
  "routeRows_loop ops r ds i c =
     map (\<lambda>k. rowAt ops r ds k (c + sum_list (map ((!) ds) [i..<Suc k]))) [i..<length r]"
proof (induction ops r ds i c rule: routeRows_loop.induct)
  case (1 ops r ds i c)
  show ?case
  proof (cases "i < length r")
    case True
    have "routeRows_loop ops r ds (i + 1) (c + ds ! i) =
        map (\<lambda>k. rowAt ops r ds k (c + ds ! i + sum_list (map ((!) ds) [i + 1..<Suc k])))
            [i + 1..<length r]"
      by (rule "1.IH" [OF True refl refl refl refl])
    also have "\<dots> =
          map (\<lambda>k. rowAt ops r ds k (c + sum_list (map ((!) ds) [i..<Suc k]))) [i + 1..<length r]"
    proof (rule map_cong [OF refl])
      fix k assume "k \<in> set [i + 1..<length r]"
      then have "i < Suc k" by simp
      then have "[i..<Suc k] = i # [i + 1..<Suc k]"
        by (simp add: upt_conv_Cons)
      then show "rowAt ops r ds k (c + ds ! i + sum_list (map ((!) ds) [i + 1..<Suc k])) =
          rowAt ops r ds k (c + sum_list (map ((!) ds) [i..<Suc k]))"
        by (simp add: add.assoc del: upt_Suc)
    qed
    finally have IH: "routeRows_loop ops r ds (i + 1) (c + ds ! i) =
          map (\<lambda>k. rowAt ops r ds k (c + sum_list (map ((!) ds) [i..<Suc k]))) [i + 1..<length r]" .
    have one: "c + sum_list (map ((!) ds) [i..<Suc i]) = c + ds ! i" by simp
    have upt: "[i..<length r] = i # [i + 1..<length r]"
      using True by (simp add: upt_conv_Cons)
    have "routeRows_loop ops r ds i c =
        rowAt ops r ds i (c + ds ! i) # routeRows_loop ops r ds (i + 1) (c + ds ! i)"
      by (subst routeRows_loop.simps) (simp add: True Let_def rowAt_def)
    then show ?thesis
      unfolding IH upt list.map one by simp
  next
    case False
    then show ?thesis
      by (subst routeRows_loop.simps) simp
  qed
qed

lemma take_Suc_nth_sum:
  assumes "k < length ds"
  shows "sum_list (map ((!) ds) [0..<Suc k]) = sum_list (take (Suc k) (ds::real list))"
proof -
  have "map ((!) ds) [0..<Suc k] = take (Suc k) ds"
    by (rule nth_equalityI) (use assms in \<open>auto simp: nth_append less_Suc_eq\<close>)
  then show ?thesis by simp
qed

lemma length_routeRows: "length (routeRows ops r) = length r"
  by (simp add: routeRows_def routeRows_loop_eq)

lemma nth_routeRows:
  "i < length r \<Longrightarrow>
   routeRows ops r ! i =
     rowAt ops r (getRouteDistances r) i (sum_list (take (Suc i) (getRouteDistances r)))"
  by (simp add: routeRows_def routeRows_loop_eq take_Suc_nth_sum length_getRouteDistances
      del: upt_Suc)

lemma sum_take_mono:
  assumes "\<And>d. d \<in> set ds \<Longrightarrow> 0 \<le> (d::real)" and "i \<le> j"
  shows "sum_list (take i ds) \<le> sum_list (take j ds)"
proof -
  from \<open>i \<le> j\<close> obtain m where j: "j = i + m" by (auto simp: le_iff_add)
  have "take (i + m) ds = take i ds @ take m (drop i ds)"
    by (simp add: take_add)
  moreover have "0 \<le> sum_list (take m (drop i ds))"
    by (rule sum_list_nonneg) (use assms(1) in \<open>auto dest!: in_set_takeD in_set_dropD\<close>)
  ultimately show ?thesis by (simp add: j)
qed

lemma length_cumulativeDistances: "length (cumulativeDistances ops r) = length r"
  by (simp add: cumulativeDistances_def length_routeRows)

lemma nth_cumulativeDistances:
  "i < length r \<Longrightarrow>
   cumulativeDistances ops r ! i = sum_list (take (Suc i) (getRouteDistances r))"
  by (simp add: cumulativeDistances_def length_routeRows nth_routeRows rowAt_def)

text \<open>
  Claim C3. The running totals of the rows of the route table: the total of row \<open>i\<close> is
  the sum of the segment distances \<open>0..i\<close>, the totals never decrease from one row to the
  next, and the total of the last row is the sum of all segment distances, the length of
  the closed tour.
\<close>

theorem C3_cumulative_distances:
  "length (cumulativeDistances ops r) = length r \<and>
   (\<forall>i<length r. cumulativeDistances ops r ! i =
        sum_list (take (i + 1) (getRouteDistances r))) \<and>
   sorted (cumulativeDistances ops r) \<and>
   (r \<noteq> [] \<longrightarrow> last (cumulativeDistances ops r) = sum_list (getRouteDistances r))"
proof (intro conjI allI impI)
  let ?cs = "cumulativeDistances ops r"
  show len: "length ?cs = length r" by (rule length_cumulativeDistances)
  show "?cs ! i = sum_list (take (i + 1) (getRouteDistances r))" if "i < length r" for i
    using that nth_cumulativeDistances [of i r ops] by simp
  show "sorted ?cs"
  proof (rule sorted_iff_nth_mono [THEN iffD2], intro allI impI)
    fix i j assume "i \<le> j" "j < length ?cs"
    then have i: "i < length r" and j: "j < length r" using len by simp_all
    have "sum_list (take (Suc i) (getRouteDistances r)) \<le> sum_list (take (Suc j) (getRouteDistances r))"
      by (rule sum_take_mono) (use \<open>i \<le> j\<close> getRouteDistances_nonneg in auto)
    then show "?cs ! i \<le> ?cs ! j"
      by (simp only: nth_cumulativeDistances [OF i] nth_cumulativeDistances [OF j])
  qed
  show "last ?cs = sum_list (getRouteDistances r)" if "r \<noteq> []"
  proof -
    from that have pos: "length r - 1 < length r" by simp
    have "?cs \<noteq> []" using that len by auto
    then have "last ?cs = ?cs ! (length r - 1)"
      by (simp add: last_conv_nth len)
    also have "\<dots> = sum_list (take (Suc (length r - 1)) (getRouteDistances r))"
      by (rule nth_cumulativeDistances [OF pos])
    also have "\<dots> = sum_list (getRouteDistances r)"
      using that by (simp add: length_getRouteDistances)
    finally show ?thesis .
  qed
qed

theorem C3_witness:
  "(1::nat) < length [\<lparr>px = 0, py = 0\<rparr>, \<lparr>px = 3, py = 4\<rparr>, \<lparr>px = 6, py = 0\<rparr>] \<and>
   cumulativeDistances None [\<lparr>px = 0, py = 0\<rparr>, \<lparr>px = 3, py = 4\<rparr>, \<lparr>px = 6, py = 0\<rparr>] ! 1 = 10 \<and>
   [\<lparr>px = 0, py = 0\<rparr>, \<lparr>px = 3, py = 4\<rparr>, \<lparr>px = 6, py = 0\<rparr>] \<noteq> [] \<and>
   last (cumulativeDistances None [\<lparr>px = 0, py = 0\<rparr>, \<lparr>px = 3, py = 4\<rparr>, \<lparr>px = 6, py = 0\<rparr>]) = 16"
  using C3_cumulative_distances
    [of None "[\<lparr>px = 0, py = 0\<rparr>, \<lparr>px = 3, py = 4\<rparr>, \<lparr>px = 6, py = 0\<rparr>]"]
  by (simp add: getRouteDistances_triangle)


lemma getRouteDistances_single: "getRouteDistances [p] = [0]"
  by (simp add: getRouteDistances_map calculateDistance_def)

lemma getRouteDistances_Nil: "getRouteDistances [] = []"
  by (simp add: getRouteDistances_map)

lemma useMemoLayout_short:
  "length (routeOf sol) < 2 \<Longrightarrow> l_routeDistances (useMemoLayout w h pad (Some sol)) = []"
  by (auto simp: useMemoLayout_def Let_def emptyLayout_def)

text \<open>
  Claim C4, as the code has it. For a route of a single point, \<open>getRouteDistances\<close>
  (the metrics of the route table) yields the single distance 0, the total is 0 and the
  table has one row with distance 0 and running total 0. For the empty route it yields
  the empty list, and no rows. The route distances of the SVG renderer are computed under
  \<open>route.length > 1\<close>: for a route of fewer than two points they are the empty list,
  not a single zero, and their total is 0.
\<close>

theorem C4_degenerate_routes:
  "getRouteDistances [p :: 'a xy_scheme] = [0] \<and> sum_list (getRouteDistances [p]) = 0 \<and>
   map row_distance (routeRows ops [p]) = [0] \<and>
   map row_cumulativeDistance (routeRows ops [p]) = [0] \<and>
   getRouteDistances ([] :: 'a xy_scheme list) = [] \<and>
   routeRows ops ([] :: 'a xy_scheme list) = [] \<and>
   (length (routeOf sol) < 2 \<longrightarrow>
      l_routeDistances (svgLayout (Some sol)) = [] \<and>
      sum_list (l_routeDistances (svgLayout (Some sol))) = 0)"
proof -
  have rows: "routeRows ops [p] = [rowAt ops [p] [0] 0 0]"
    by (rule nth_equalityI)
      (simp_all add: length_routeRows nth_routeRows getRouteDistances_single)
  have "length (routeRows ops ([] :: 'a xy_scheme list)) = 0"
    by (simp only: length_routeRows list.size)
  then have empty: "routeRows ops ([] :: 'a xy_scheme list) = []" by simp
  show ?thesis
    by (simp add: getRouteDistances_single getRouteDistances_Nil rows rowAt_def empty
        svgLayout_def useMemoLayout_short)
qed

theorem C4_witness:
  "length (routeOf solo) < 2 \<and>
   l_routeDistances (svgLayout (Some solo)) = [] \<and>
   getRouteDistances [\<lparr>px = 2, py = 3\<rparr>] = [0]"
  using C4_degenerate_routes [of "\<lparr>px = 2, py = 3\<rparr>" None solo]
  by (simp add: solo_def routeOf_def)

text \<open>
  The claim as the specification states it fails on the SVG renderer: for the route of one
  point its route distances are empty, there is no zero-distance segment.
\<close>

theorem C4_counterexample:
  "l_routeDistances (svgLayout (Some solo)) = [] \<and>
   length (l_routeDistances (svgLayout (Some solo))) \<noteq> 1"
  by (simp add: svgLayout_def useMemoLayout_def solo_def pointsOf_def routeOf_def Let_def)

subsection \<open>Formatting of distances\<close>


lemma fixedDigits_examples:
  "fixedDigits 5 2 = ''5.00''" "fixedDigits 0 2 = ''0.00''"
  "fixedDigits 5 (Suc 0) = ''5.0''" "fixedDigits 6 (Suc 0) = ''6.0''"
  by code_simp+



lemma toFixed_labels: "toFixed 5 (Suc 0) = ''5.0''" "toFixed 6 (Suc 0) = ''6.0''"
  by (simp_all add: toFixed_def Let_def fixedDigits_examples)












subsection \<open>The original index of a route point\<close>

lemma findIndex_from_none: "(\<forall>v\<in>set vs. \<not> P v) \<Longrightarrow> findIndex_from P vs k = - 1"
  by (induction vs arbitrary: k) simp_all

lemma findIndex_from_first:
  "i < length vs \<Longrightarrow> P (vs ! i) \<Longrightarrow> (\<forall>j<i. \<not> P (vs ! j)) \<Longrightarrow>
   findIndex_from P vs k = k + int i"
proof (induction vs arbitrary: k i)
  case Nil
  then show ?case by simp
next
  case (Cons v vs)
  show ?case
  proof (cases i)
    case 0
    with Cons.prems show ?thesis by simp
  next
    case (Suc n)
    with Cons.prems have "\<not> P v" by auto
    moreover have "findIndex_from P vs (k + 1) = k + 1 + int n"
      using Cons.prems Suc by (intro Cons.IH) auto
    ultimately show ?thesis using Suc by simp
  qed
qed

text \<open>
  The scan of \<open>originalIndexOf\<close>: the first original point within 0.001 of the route
  point on both axes gives its position counted from one; without \<open>originalPoints\<close>
  the cell is \<open>'N/A'\<close>.
\<close>

lemma originalIndexOf_first:
  "i < length ps \<Longrightarrow> matches point (ps ! i) \<Longrightarrow> (\<forall>j<i. \<not> matches point (ps ! j)) \<Longrightarrow>
   originalIndexOf (Some ps) point = Number (int i + 1)"
  by (simp add: originalIndexOf_def findIndex_def findIndex_from_first)

lemma originalIndexOf_no_match:
  "(\<forall>q\<in>set ps. \<not> matches point q) \<Longrightarrow> originalIndexOf (Some ps) point = Number 0"
  by (simp add: originalIndexOf_def findIndex_def findIndex_from_none)

lemma originalIndexOf_absent: "originalIndexOf None point = NotAvailable"
  by (simp add: originalIndexOf_def)

text \<open>
  Claim C5. When no original point matches the route point within the tolerance, the
  code does not return "none": \<open>findIndex\<close> yields \<open>-1\<close>, the code adds one, and the
  cell "Original #" of the row shows the number 0. Here the only original point is
  (0, 0) and the route point is (5, 5).
\<close>

theorem C5_no_match_yields_zero:
  "originalIndexOf (Some [\<lparr>px = 0, py = 0, address = None\<rparr>]) \<lparr>px = 5, py = 5\<rparr> = Number 0 \<and>
   row_originalIndex (routeRows (Some [\<lparr>px = 0, py = 0, address = None\<rparr>]) [\<lparr>px = 5, py = 5\<rparr>] ! 0)
     = Number 0 \<and>
   originalIndexOf None \<lparr>px = 5, py = 5\<rparr> = NotAvailable"
  by (simp add: nth_routeRows rowAt_def originalIndexOf_def findIndex_def matches_def)

section \<open>Properties of the selection state\<close>

lemma onClick_route_only:
  "selectedRoutePoint s = selectedRoutePoint s' \<Longrightarrow>
   selectedRoutePoint (foldl onClick s cs) =
   selectedRoutePoint (foldl onClick s' (filter isRouteClick cs))"
proof (induction cs arbitrary: s s')
  case Nil
  then show ?case by simp
next
  case (Cons c cs)
  show ?case
  proof (cases c)
    case (ClickOriginalRow i)
    have "selectedRoutePoint (onClick s c) = selectedRoutePoint s'"
      using Cons.prems ClickOriginalRow by (simp add: setSelectedOriginalPoint_def)
    from Cons.IH [OF this] show ?thesis using ClickOriginalRow by simp
  next
    case (ClickRouteRow i)
    have "selectedRoutePoint (onClick s c) = selectedRoutePoint (onClick s' c)"
      using Cons.prems ClickRouteRow by (simp add: setSelectedRoutePoint_def)
    from Cons.IH [OF this] show ?thesis using ClickRouteRow by simp
  qed
qed

lemma onClick_original_only:
  "selectedOriginalPoint s = selectedOriginalPoint s' \<Longrightarrow>
   selectedOriginalPoint (foldl onClick s cs) =
   selectedOriginalPoint (foldl onClick s' (filter (\<lambda>c. \<not> isRouteClick c) cs))"
proof (induction cs arbitrary: s s')
  case Nil
  then show ?case by simp
next
  case (Cons c cs)
  show ?case
  proof (cases c)
    case (ClickRouteRow i)
    have "selectedOriginalPoint (onClick s c) = selectedOriginalPoint s'"
      using Cons.prems ClickRouteRow by (simp add: setSelectedRoutePoint_def)
    from Cons.IH [OF this] show ?thesis using ClickRouteRow by simp
  next
    case (ClickOriginalRow i)
    have "selectedOriginalPoint (onClick s c) = selectedOriginalPoint (onClick s' c)"
      using Cons.prems ClickOriginalRow by (simp add: setSelectedOriginalPoint_def)
    from Cons.IH [OF this] show ?thesis using ClickOriginalRow by simp
  qed
qed

text \<open>
  Claim C6, as the code has it. The two selections are independent. A click on a row of
  one table sets the selection of that table to the index of the row, or to none when
  that index is the selected one, and leaves the selection of the other table as it is.
  After any sequence of clicks the selection of a table is what the clicks on that table
  alone would have produced.
\<close>

theorem C6_selections_independent:
  "selectedOriginalPoint (onClick s (ClickOriginalRow i)) =
     (if selectedOriginalPoint s = Some i then None else Some i) \<and>
   selectedRoutePoint (onClick s (ClickOriginalRow i)) = selectedRoutePoint s \<and>
   selectedRoutePoint (onClick s (ClickRouteRow i)) =
     (if selectedRoutePoint s = Some i then None else Some i) \<and>
   selectedOriginalPoint (onClick s (ClickRouteRow i)) = selectedOriginalPoint s \<and>
   selectedRoutePoint (clicks cs) = selectedRoutePoint (clicks (filter isRouteClick cs)) \<and>
   selectedOriginalPoint (clicks cs) =
     selectedOriginalPoint (clicks (filter (\<lambda>c. \<not> isRouteClick c) cs))"
  using onClick_route_only [OF refl, of initialSelection cs]
    onClick_original_only [OF refl, of initialSelection cs]
  by (simp add: clicks_def setSelectedOriginalPoint_def setSelectedRoutePoint_def)

theorem C6_witness:
  "selectedOriginalPoint (clicks [ClickOriginalRow 0, ClickRouteRow 0]) = Some 0 \<and>
   selectedRoutePoint (clicks [ClickOriginalRow 0, ClickRouteRow 0]) = Some 0 \<and>
   selectedRoutePoint (onClick (clicks [ClickOriginalRow 0, ClickRouteRow 0]) (ClickRouteRow 0)) = None \<and>
   selectedOriginalPoint (onClick (clicks [ClickOriginalRow 0, ClickRouteRow 0]) (ClickRouteRow 0)) = Some 0"
  using C6_selections_independent
    [of "clicks [ClickOriginalRow 0, ClickRouteRow 0]" 0 "[ClickOriginalRow 0, ClickRouteRow 0]"]
  by (simp add: clicks_def initialSelection_def setSelectedOriginalPoint_def
      setSelectedRoutePoint_def)

text \<open>
  The exclusive selection of the specification fails: a click on the first row of the
  table of original points and then one on the first row of the route table leave both
  selections set.
\<close>

theorem C6_counterexample:
  "\<not> exclusive (clicks [ClickOriginalRow 0, ClickRouteRow 0])"
  by (simp add: exclusive_def clicks_def initialSelection_def
      setSelectedOriginalPoint_def setSelectedRoutePoint_def)

section \<open>Properties of the projection\<close>

lemma fold_min_le_acc: "fold min vs v \<le> (v::real)"
proof (induction vs arbitrary: v)
  case Nil
  show ?case by simp
next
  case (Cons a vs)
  have "fold min vs (min a v) \<le> min a v" by (rule Cons.IH)
  then show ?case by simp
qed

lemma fold_min_le: "x \<in> set (v # vs) \<Longrightarrow> fold min vs v \<le> (x::real)"
proof (induction vs arbitrary: v)
  case Nil
  then show ?case by simp
next
  case (Cons a vs)
  have acc: "fold min vs (min a v) \<le> min a v" by (rule fold_min_le_acc)
  from Cons.prems consider "x = v" | "x = a" | "x \<in> set vs" by auto
  then show ?case
  proof cases
    case 1
    with acc show ?thesis by simp
  next
    case 2
    with acc show ?thesis by simp
  next
    case 3
    then show ?thesis using Cons.IH [of "min a v"] by simp
  qed
qed

lemma fold_max_ge_acc: "(v::real) \<le> fold max vs v"
proof (induction vs arbitrary: v)
  case Nil
  show ?case by simp
next
  case (Cons a vs)
  have "max a v \<le> fold max vs (max a v)" by (rule Cons.IH)
  then show ?case by simp
qed

lemma fold_max_ge: "x \<in> set (v # vs) \<Longrightarrow> (x::real) \<le> fold max vs v"
proof (induction vs arbitrary: v)
  case Nil
  then show ?case by simp
next
  case (Cons a vs)
  have acc: "max a v \<le> fold max vs (max a v)" by (rule fold_max_ge_acc)
  from Cons.prems consider "x = v" | "x = a" | "x \<in> set vs" by auto
  then show ?case
  proof cases
    case 1
    with acc show ?thesis by simp
  next
    case 2
    with acc show ?thesis by simp
  next
    case 3
    then show ?thesis using Cons.IH [of "max a v"] by simp
  qed
qed

lemma mathMin_le: "x \<in> set vs \<Longrightarrow> mathMin vs \<le> x"
  by (cases vs) (simp_all only: mathMin.simps fold_min_le list.set empty_iff)

lemma mathMax_ge: "x \<in> set vs \<Longrightarrow> x \<le> mathMax vs"
  by (cases vs) (simp_all only: mathMax.simps fold_max_ge list.set empty_iff)

lemma orElse_pos: "0 \<le> a \<Longrightarrow> 0 < orElse a 1"
  by (simp add: orElse_def)

lemma fold_min_in: "fold min vs v \<in> set ((v::real) # vs)"
proof (induction vs arbitrary: v)
  case Nil
  then show ?case by simp
next
  case (Cons u us)
  have m: "min u v = u \<or> min u v = v" by (auto simp: min_def)
  have "fold min us (min u v) \<in> set (min u v # us)" by (rule Cons.IH)
  with m show ?case by auto
qed

lemma mathMin_in: "vs \<noteq> [] \<Longrightarrow> mathMin vs \<in> set vs"
  using fold_min_in by (cases vs) simp_all

lemma computeBounds_fields:
  "b_scale (computeBounds width height padding points) =
     min (fl (fl (width - fl (2 * padding))
              / orElse (fl (mathMax (map px points) - mathMin (map px points))) 1))
         (fl (fl (height - fl (2 * padding))
              / orElse (fl (mathMax (map py points) - mathMin (map py points))) 1))"
  "b_offsetX (computeBounds width height padding points) =
     fl (fl (fl (width - fl (orElse (fl (mathMax (map px points) - mathMin (map px points))) 1
                              * b_scale (computeBounds width height padding points))) / 2)
         - fl (mathMin (map px points) * b_scale (computeBounds width height padding points)))"
  "b_offsetY (computeBounds width height padding points) =
     fl (fl (fl (height - fl (orElse (fl (mathMax (map py points) - mathMin (map py points))) 1
                               * b_scale (computeBounds width height padding points))) / 2)
         - fl (mathMin (map py points) * b_scale (computeBounds width height padding points)))"
  "b_svgWidth (computeBounds width height padding points) = width"
  "b_svgHeight (computeBounds width height padding points) = height"
  by (simp_all add: computeBounds_def Let_def)

lemma scale_nonneg:
  fixes w p :: nat
  assumes "2 * p \<le> w" "w \<le> 2 ^ 16" "0 < r"
  shows "0 \<le> fl (fl (real w - fl (2 * real p)) / r)"
proof -
  have p53: "2 * p < 2 ^ 53" and w53: "w - 2 * p < 2 ^ 53"
    using assms(1,2) by simp_all
  have "fl (2 * real p) = 2 * real p"
    using fl_real_nat [OF p53] by simp
  moreover have "fl (real w - 2 * real p) = real w - 2 * real p"
    using fl_real_nat [OF w53] assms(1) by (simp add: of_nat_diff)
  moreover have "0 \<le> real w - 2 * real p"
    using assms(1) by (metis diff_ge_0_iff_ge of_nat_le_iff of_nat_mult of_nat_numeral)
  ultimately have "0 \<le> fl (real w - fl (2 * real p)) / r"
    using assms(3) by simp
  then show ?thesis by (rule fl_nonneg)
qed

text \<open>
  On well conditioned coordinates the projection stays clear of the overflow that \<open>fl\<close>
  does not model: a coordinate is at most \<open>2 ^ 130\<close> in absolute value, the scale lies
  between 0 and \<open>2 ^ 118\<close>, and the products of a coordinate with the scale, and what
  is computed from them, are at most \<open>2 ^ 49\<close> (in the proof of \<open>axis_rounded\<close>).
\<close>

lemma scale_bounded:
  fixes w p :: nat and D :: real
  assumes ext: "D = 0 \<or> (1 / 2 ^ 100 \<le> D \<and> D \<le> 2 ^ 100)"
    and vp: "2 * p \<le> w" "w \<le> 2 ^ 16"
  shows "fl (fl (real w - fl (2 * real p)) / orElse (fl D) 1) \<le> 2 ^ 118"
proof -
  define r where "r = orElse (fl D) 1"
  note rr = range_rounded [OF ext r_def refl]
  have rlow: "1 / 2 ^ 101 \<le> r"
  proof (cases "D = 0")
    case True
    then show ?thesis by (simp add: r_def orElse_def)
  next
    case False
    with ext have "1 / 2 ^ 100 \<le> D" by simp
    moreover have "(1 + 1 / 2 ^ 51) * r \<le> 2 * r"
      using rr(1) by (intro mult_right_mono) simp_all
    ultimately have "1 / 2 ^ 100 \<le> 2 * r" using rr(3) by linarith
    then show ?thesis by simp
  qed
  define A where "A = real w - 2 * real p"
  have W: "real w \<le> 2 ^ 16" using vp(2) by (metis of_nat_le_iff of_nat_numeral of_nat_power)
  have PW: "2 * real p \<le> real w" using vp(1) by (metis of_nat_le_iff of_nat_mult of_nat_numeral)
  have A: "0 \<le> A" "A \<le> 2 ^ 16" using W PW by (simp_all add: A_def)
  have p53: "2 * p < 2 ^ 53" and w53: "w - 2 * p < 2 ^ 53"
    using vp by simp_all
  have "fl (2 * real p) = 2 * real p"
    using fl_real_nat [OF p53] by simp
  moreover have "fl (real w - 2 * real p) = real w - 2 * real p"
    using fl_real_nat [OF w53] vp(1) by (simp add: of_nat_diff)
  ultimately have flA: "fl (real w - fl (2 * real p)) = A" by (simp add: A_def)
  have "A \<le> 2 ^ 117 * r"
  proof -
    have "A \<le> 2 ^ 16" by (rule A(2))
    also have "\<dots> = 2 ^ 117 * (1 / 2 ^ 101)" by simp
    also have "\<dots> \<le> 2 ^ 117 * r" using rlow by (intro mult_left_mono) simp_all
    finally show ?thesis .
  qed
  then have q: "A / r \<le> 2 ^ 117" using rr(1) by (simp add: pos_divide_le_eq)
  have q0: "0 \<le> A / r" using A(1) rr(1) by simp
  have "fl (A / r) \<le> A / r + (A / r / 2 ^ 53 + 1 / 2 ^ 200)"
    using fl_between(2) [of "A / r"] q0 by simp
  also have "\<dots> \<le> 2 ^ 118" using q by simp
  finally show ?thesis by (simp add: flA r_def)
qed

lemma scale_range:
  fixes w h p :: nat
  assumes "2 * p \<le> w" and "2 * p \<le> h" and "w \<le> 2 ^ 16" and "h \<le> 2 ^ 16"
    and "wellConditioned (map px points)" and "wellConditioned (map py points)"
  shows "0 \<le> b_scale (computeBounds (real w) (real h) (real p) points)"
    and "b_scale (computeBounds (real w) (real h) (real p) points) \<le> 2 ^ 118"
proof -
  let ?dx = "mathMax (map px points) - mathMin (map px points)"
  let ?dy = "mathMax (map py points) - mathMin (map py points)"
  have extX: "?dx = 0 \<or> (1 / 2 ^ 100 \<le> ?dx \<and> ?dx \<le> 2 ^ 100)"
    using assms(5) by (simp add: wellConditioned_def Let_def)
  have extY: "?dy = 0 \<or> (1 / 2 ^ 100 \<le> ?dy \<and> ?dy \<le> 2 ^ 100)"
    using assms(6) by (simp add: wellConditioned_def Let_def)
  have rx: "0 < orElse (fl ?dx) 1" and ry: "0 < orElse (fl ?dy) 1"
    using range_rounded(1) [OF extX refl refl] range_rounded(1) [OF extY refl refl] by simp_all
  show "0 \<le> b_scale (computeBounds (real w) (real h) (real p) points)"
    using scale_nonneg [OF assms(1,3) rx] scale_nonneg [OF assms(2,4) ry]
    by (simp add: computeBounds_fields(1))
  have "b_scale (computeBounds (real w) (real h) (real p) points)
        \<le> fl (fl (real w - fl (2 * real p)) / orElse (fl ?dx) 1)"
    by (simp add: computeBounds_fields(1))
  also have "\<dots> \<le> 2 ^ 118"
    by (rule scale_bounded [OF extX assms(1,3)])
  finally show "b_scale (computeBounds (real w) (real h) (real p) points) \<le> 2 ^ 118" .
qed

lemma wellConditioned_bound:
  assumes "wellConditioned vs" and "v \<in> set vs"
  shows "\<bar>v\<bar> \<le> 2 ^ 130"
proof -
  define d where "d = mathMax vs - mathMin vs"
  have ext: "d = 0 \<or> (1 / 2 ^ 100 \<le> d \<and> d \<le> 2 ^ 100)"
    and v: "\<bar>v\<bar> \<le> 2 ^ 30 * orElse d 1"
    using assms by (simp_all add: wellConditioned_def Let_def d_def)
  have "orElse d 1 \<le> 2 ^ 100"
    using ext by (auto simp: orElse_def)
  then have "2 ^ 30 * orElse d 1 \<le> 2 ^ 30 * (2 ^ 100 :: real)"
    by (intro mult_left_mono) simp_all
  with v show ?thesis by simp
qed

lemma handleResize_104: "handleResize 104 = (72, 54)"
  by (simp add: handleResize_def Let_def)

lemma canvas_104:
  "canvasWidth (browser None (Some 104) 40) = 72" "canvasHeight (browser None (Some 104) 40) = 54"
  by (simp_all add: canvasWidth_def canvasHeight_def dimensionsOf_def browser_def handleResize_104
      canvasAttribute_def toUint32_def Let_def)

lemma scalePoint_tall:
  "scalePoint (computeBounds 72 54 40 tall) (tall ! 0) = \<lparr>px = 40, py = - 373\<rparr>"
  using fl_quotient_above
  by (simp add: scalePoint_def computeBounds_def Let_def orElse_def tall_def min_def)

lemma scalePoint_wide:
  "px (scalePoint (computeBounds 800 600 60 wide) (wide ! 1)) = 1024"
  by (simp add: scalePoint_def computeBounds_def Let_def orElse_def wide_def fl_half
      fl_product fl_offset fl_scaled)

text \<open>
  Claim C1, as the code has it. The projection is computed in double precision. For
  every non-empty sequence of points, every viewport whose width and height are whole
  numbers between twice the padding and \<open>2 ^ 16\<close>, the padding being a whole number
  and at least 1, and coordinates that are well conditioned on each axis, every projected
  point lies within \<open>[0, width] \<times> [0, height]\<close>. The viewport of the SVG renderer (800
  by 600, padding 60) meets the condition; that of the canvas renderer (padding 40, the
  whole numbers \<open>canvas.width\<close> and \<open>canvas.height\<close>) meets it when the canvas is at
  least 80 wide and 80 high, and not larger than \<open>2 ^ 16\<close>.
\<close>

theorem C1_projection_contained:
  fixes w h p :: nat
  assumes "points \<noteq> []"
    and "1 \<le> p" and "2 * p \<le> w" and "2 * p \<le> h" and "w \<le> 2 ^ 16" and "h \<le> 2 ^ 16"
    and "wellConditioned (map px points)" and "wellConditioned (map py points)"
    and "q \<in> set (map (scalePoint (computeBounds (real w) (real h) (real p) points)) points)"
  shows "0 \<le> px q \<and> px q \<le> real w \<and> 0 \<le> py q \<and> py q \<le> real h"
proof -
  let ?b = "computeBounds (real w) (real h) (real p) points"
  let ?minX = "mathMin (map px points)" and ?maxX = "mathMax (map px points)"
  let ?minY = "mathMin (map py points)" and ?maxY = "mathMax (map py points)"
  let ?rx = "orElse (fl (?maxX - ?minX)) 1" and ?ry = "orElse (fl (?maxY - ?minY)) 1"
  note ne = assms(1) and p1 = assms(2) and pw = assms(3) and ph = assms(4)
    and w16 = assms(5) and h16 = assms(6)
  from assms(9) obtain pt where pt: "pt \<in> set points" and qp: "q = scalePoint ?b pt" by auto
  have x: "?minX \<le> px pt" "px pt \<le> ?maxX" and y: "?minY \<le> py pt" "py pt \<le> ?maxY"
    using pt by (simp_all add: mathMin_le mathMax_ge)
  have extX: "?maxX - ?minX = 0 \<or> (1 / 2 ^ 100 \<le> ?maxX - ?minX \<and> ?maxX - ?minX \<le> 2 ^ 100)"
    and allX: "\<forall>v\<in>set (map px points). \<bar>v\<bar> \<le> 2 ^ 30 * orElse (?maxX - ?minX) 1"
    using assms(7) by (simp_all add: wellConditioned_def Let_def)
  have extY: "?maxY - ?minY = 0 \<or> (1 / 2 ^ 100 \<le> ?maxY - ?minY \<and> ?maxY - ?minY \<le> 2 ^ 100)"
    and allY: "\<forall>v\<in>set (map py points). \<bar>v\<bar> \<le> 2 ^ 30 * orElse (?maxY - ?minY) 1"
    using assms(8) by (simp_all add: wellConditioned_def Let_def)
  have minX: "?minX \<in> set (map px points)" and minY: "?minY \<in> set (map py points)"
    using ne mathMin_in [of "map px points"] mathMin_in [of "map py points"] by simp_all
  have condX: "\<bar>?minX\<bar> \<le> 2 ^ 30 * orElse (?maxX - ?minX) 1"
    "\<bar>px pt\<bar> \<le> 2 ^ 30 * orElse (?maxX - ?minX) 1"
    using allX minX pt by auto
  have condY: "\<bar>?minY\<bar> \<le> 2 ^ 30 * orElse (?maxY - ?minY) 1"
    "\<bar>py pt\<bar> \<le> 2 ^ 30 * orElse (?maxY - ?minY) 1"
    using allY minY pt by auto
  have rx: "0 < ?rx" and ry: "0 < ?ry"
    using range_rounded(1) [OF extX refl refl] range_rounded(1) [OF extY refl refl] by simp_all
  have sx: "b_scale ?b \<le> fl (fl (real w - fl (2 * real p)) / ?rx)"
    and sy: "b_scale ?b \<le> fl (fl (real h - fl (2 * real p)) / ?ry)"
    by (simp_all add: computeBounds_fields(1))
  have s0: "0 \<le> b_scale ?b"
    using scale_nonneg [OF pw w16 rx] scale_nonneg [OF ph h16 ry]
    by (simp add: computeBounds_fields(1))
  note ax = axis_rounded [OF x extX condX p1 pw w16 refl s0 sx]
  note ay = axis_rounded [OF y extY condY p1 ph h16 refl s0 sy]
  have P: "1 \<le> real p" using p1 by simp
  have X: "0 \<le> px q" "px q \<le> real w"
    using ax P by (simp_all add: qp scalePoint_def computeBounds_fields(2))
  define Y where "Y = fl (fl (py pt * b_scale ?b) + b_offsetY ?b)"
  have Y: "real p - 1 / 2 \<le> Y" "Y \<le> real h - real p + 1 / 2"
    using ay by (simp_all add: Y_def computeBounds_fields(3))
  have H: "real h \<le> 2 ^ 16"
    using h16 by (metis of_nat_le_iff of_nat_numeral of_nat_power)
  have "\<bar>real h - Y\<bar> \<le> 2 ^ 20"
    using Y P H by (simp add: abs_le_iff)
  note f = fl_small_between [OF this]
  have pyq: "py q = fl (real h - Y)"
    by (simp add: qp scalePoint_def Y_def computeBounds_fields(5))
  have Yq: "0 \<le> py q" "py q \<le> real h"
    using f Y P unfolding pyq by simp_all
  from X Yq show ?thesis by simp
qed

theorem C1_witness:
  "[\<lparr>px = 0, py = 0\<rparr>, \<lparr>px = 1, py = 1\<rparr>] \<noteq> [] \<and>
   (1::nat) \<le> 60 \<and> (2::nat) * 60 \<le> 800 \<and> (2::nat) * 60 \<le> 600 \<and>
   (800::nat) \<le> 2 ^ 16 \<and> (600::nat) \<le> 2 ^ 16 \<and>
   wellConditioned (map px [\<lparr>px = 0, py = 0\<rparr>, \<lparr>px = 1, py = 1\<rparr>]) \<and>
   wellConditioned (map py [\<lparr>px = 0, py = 0\<rparr>, \<lparr>px = 1, py = 1\<rparr>]) \<and>
   \<lparr>px = 160, py = 540\<rparr>
     \<in> set (map (scalePoint (computeBounds 800 600 60 [\<lparr>px = 0, py = 0\<rparr>, \<lparr>px = 1, py = 1\<rparr>]))
              [\<lparr>px = 0, py = 0\<rparr>, \<lparr>px = 1, py = 1\<rparr>]) \<and>
   0 \<le> px \<lparr>px = 160, py = 540\<rparr> \<and> px \<lparr>px = 160, py = 540\<rparr> \<le> 800 \<and>
   0 \<le> py \<lparr>px = 160, py = 540\<rparr> \<and> py \<lparr>px = 160, py = 540\<rparr> \<le> 600"
proof -
  let ?ps = "[\<lparr>px = 0, py = 0\<rparr>, \<lparr>px = 1, py = 1\<rparr>]"
  have wc: "wellConditioned (map px ?ps)" "wellConditioned (map py ?ps)"
    by (simp_all add: wellConditioned_def Let_def orElse_def)
  have mem: "\<lparr>px = 160, py = 540\<rparr> \<in> set (map (scalePoint (computeBounds 800 600 60 ?ps)) ?ps)"
    by (simp add: scalePoint_def computeBounds_def Let_def orElse_def)
  have mem': "\<lparr>px = 160, py = 540\<rparr>
      \<in> set (map (scalePoint (computeBounds (real 800) (real 600) (real 60) ?ps)) ?ps)"
    using mem by simp
  from C1_projection_contained [OF _ _ _ _ _ _ wc mem'] wc mem show ?thesis by simp
qed

text \<open>
  The claim as the specification states it, for every viewport of positive width and
  height and every sequence of points, fails in two ways. A container 104 wide gives a
  canvas of 72 by 54; with the padding of 40 the scale is negative, and the first of the
  two points of \<open>tall\<close> is drawn at \<open>y = -373\<close>, above the canvas. And in the SVG
  renderer, whose viewport is 800 by 600, the rounding of \<open>point.x * scale\<close> and of
  \<open>offsetX\<close> puts the second of the two points of \<open>wide\<close> at \<open>x = 1024\<close>, to the
  right of the viewport.
\<close>

theorem C1_counterexample:
  "canvasWidth (browser None (Some 104) 40) = 72 \<and> canvasHeight (browser None (Some 104) 40) = 54 \<and>
   tall \<noteq> [] \<and> (0::real) < 72 \<and> (0::real) < 54 \<and>
   scalePoint (computeBounds 72 54 40 tall) (tall ! 0) = \<lparr>px = 40, py = - 373\<rparr> \<and>
   \<not> (0 \<le> py (scalePoint (computeBounds 72 54 40 tall) (tall ! 0))) \<and>
   wide \<noteq> [] \<and>
   px (scalePoint (computeBounds 800 600 60 wide) (wide ! 1)) = 1024 \<and>
   \<not> (px (scalePoint (computeBounds 800 600 60 wide) (wide ! 1)) \<le> 800)"
proof -
  have "tall \<noteq> []" and "wide \<noteq> []"
    by (simp_all add: tall_def wide_def)
  with canvas_104 scalePoint_tall scalePoint_wide show ?thesis by simp
qed

section \<open>Properties of the renderers\<close>

lemma concat_map_concat_map:
  "concat (map f (concat (map g ks))) = concat (map (\<lambda>k. concat (map f (g k))) ks)"
  by (induction ks) simp_all

lemma concat_map_single: "concat (map (\<lambda>k. [h k]) ks) = map h ks"
  by (induction ks) simp_all

lemma concat_map_empty: "concat (map (\<lambda>k. []) ks) = []"
  by (induction ks) simp_all

lemma segmentOf_canvasSegment:
  "concat (map segmentOf (canvasSegment sr i)) = [(sr ! i, sr ! ((i + 1) mod length sr))]"
  by (simp add: canvasSegment_def drawArrow_def segmentOf_def Let_def split_def)

lemma segmentOf_canvasPoint: "concat (map segmentOf (canvasPoint tw b points i)) = []"
  by (cases "i = 0") (simp_all add: canvasPoint_def segmentOf_def Let_def)

lemma segmentOf_canvasGrid: "concat (map segmentOf (canvasGrid w h dark)) = []"
  by (simp add: canvasGrid_def segmentOf_def Let_def comp_def concat_map_empty)

lemma segmentOf_canvasAxisLabels: "concat (map segmentOf (canvasAxisLabels w h dark)) = []"
  by (simp add: canvasAxisLabels_def segmentOf_def Let_def)

lemma markerOf_canvasSegment: "concat (map markerOf (canvasSegment sr i)) = []"
  by (simp add: canvasSegment_def drawArrow_def markerOf_def Let_def split_def)

lemma markerOf_canvasPoint:
  "concat (map markerOf (canvasPoint tw b points i)) =
     [(scalePoint b (points ! i), if i = 0 then ''#22c55e'' else ''#3b82f6'')]"
  by (cases "i = 0") (simp_all add: canvasPoint_def markerOf_def Let_def)

lemma markerOf_canvasGrid: "concat (map markerOf (canvasGrid w h dark)) = []"
  by (simp add: canvasGrid_def markerOf_def Let_def comp_def concat_map_empty)

lemma markerOf_canvasAxisLabels: "concat (map markerOf (canvasAxisLabels w h dark)) = []"
  by (simp add: canvasAxisLabels_def markerOf_def Let_def)

lemma canvasSegments_canvasDraw:
  assumes "pointsOf sol \<noteq> []"
  shows "canvasSegments (canvasDraw tw cw ch dark (Some sol) showRoute) =
    (if showRoute \<and> 1 < length (routeOf sol)
     then tourSegments (map (scalePoint (computeBounds cw ch 40 (pointsOf sol))) (routeOf sol))
     else [])"
  using assms
  by (cases "showRoute \<and> 1 < length (routeOf sol)")
    (auto simp add: canvasSegments_def canvasDraw_def Let_def concat_map_concat_map
      segmentOf_canvasSegment segmentOf_canvasPoint segmentOf_canvasGrid
      segmentOf_canvasAxisLabels concat_map_single concat_map_empty tourSegments_def
      segmentOf_def simp del: concat_eq_Nil_conv)

lemma canvasMarkers_canvasDraw:
  assumes "pointsOf sol \<noteq> []"
  shows "canvasMarkers (canvasDraw tw cw ch dark (Some sol) showRoute) =
    pointMarkers (computeBounds cw ch 40 (pointsOf sol)) (pointsOf sol)"
  using assms
  by (cases "showRoute \<and> 1 < length (routeOf sol)")
    (auto simp add: canvasMarkers_def canvasDraw_def Let_def concat_map_concat_map
      markerOf_canvasSegment markerOf_canvasPoint markerOf_canvasGrid
      markerOf_canvasAxisLabels concat_map_single concat_map_empty pointMarkers_def
      markerOf_def simp del: concat_eq_Nil_conv)

lemma lineEnds_svgSegment:
  "lineEnds (sg_line (svgSegment sr ds i)) = (sr ! i, sr ! ((i + 1) mod length sr))"
  by (simp add: svgSegment_def lineEnds_def Let_def split_def)

lemma circleMarker_svgPoint:
  "circleMarker (pg_circle (svgPoint so sp ops i)) =
     (sp ! i, if i = 0 then ''#22c55e'' else ''#3b82f6'')"
  by (simp add: svgPoint_def circleMarker_def Let_def)

lemma svgSegments_svgRender:
  assumes "pointsOf sol \<noteq> []"
  shows "svgSegments (svgRender w h p dark (Some sol) showRoute sel) =
    (if showRoute \<and> 1 < length (routeOf sol)
     then tourSegments (map (scalePoint (computeBounds w h p (pointsOf sol))) (routeOf sol))
     else [])"
  by (simp add: svgSegments_def svgRender_def Let_def useMemoLayout_Some [OF assms]
      lineEnds_svgSegment comp_def tourSegments_def)

lemma svgMarkers_svgRender:
  assumes "pointsOf sol \<noteq> []"
  shows "svgMarkers (svgRender w h p dark (Some sol) showRoute sel) =
    pointMarkers (computeBounds w h p (pointsOf sol)) (pointsOf sol)"
  by (simp add: svgMarkers_def svgRender_def Let_def useMemoLayout_Some [OF assms]
      circleMarker_svgPoint comp_def pointMarkers_def)

lemma textContent_svgSegment:
  "textContent (sg_distance (svgSegment sr ds i)) =
     (case nth_opt ds i of Some d \<Rightarrow> if d \<noteq> 0 then toFixed d 1 else ''0.0'' | None \<Rightarrow> ''0.0'')"
  by (simp add: svgSegment_def textContent_def Let_def split_def)

lemma distanceLabels_svgRender:
  "distanceLabels (svgRender w h p dark (Some sol) showRoute sel) =
    (if showRoute \<and> pointsOf sol \<noteq> [] \<and> 1 < length (routeOf sol)
     then map (\<lambda>d. if d \<noteq> 0 then toFixed d 1 else ''0.0'') (getRouteDistances (routeOf sol))
     else [])"
proof (cases "pointsOf sol = []")
  case True
  then show ?thesis
    by (simp add: distanceLabels_def svgRender_def Let_def useMemoLayout_empty emptyLayout_def)
next
  case False
  have "map (\<lambda>i. textContent (sg_distance (svgSegment sr (getRouteDistances (routeOf sol)) i)))
          [0..<length (routeOf sol)] =
        map (\<lambda>d. if d \<noteq> 0 then toFixed d 1 else ''0.0'') (getRouteDistances (routeOf sol))" for sr
    by (rule nth_equalityI)
      (simp_all add: length_getRouteDistances textContent_svgSegment nth_opt_def)
  then show ?thesis
    using False
    by (simp add: distanceLabels_def svgRender_def Let_def useMemoLayout_Some comp_def)
qed

lemma pointsOf_pair: "pointsOf pair = [\<lparr>px = 0, py = 0, address = None\<rparr>, \<lparr>px = 1, py = 1, address = None\<rparr>]"
  by (simp add: pair_def pointsOf_def)

lemma routeOf_pair:
  "routeOf pair = [\<lparr>px = 0, py = 0, address = None, order = 0\<rparr>,
                   \<lparr>px = 1, py = 1, address = None, order = 1\<rparr>]"
  by (simp add: pair_def routeOf_def)

lemma pointMarkers_pair_canvas:
  "pointMarkers (computeBounds 800 600 40 (pointsOf pair)) (pointsOf pair) =
     [(\<lparr>px = 140, py = 560\<rparr>, ''#22c55e''), (\<lparr>px = 660, py = 40\<rparr>, ''#3b82f6'')]"
  by (simp add: pointsOf_pair pointMarkers_def scalePoint_def computeBounds_def Let_def
      orElse_def upt_rec)

lemma pointMarkers_pair_svg:
  "pointMarkers (computeBounds 800 600 60 (pointsOf pair)) (pointsOf pair) =
     [(\<lparr>px = 160, py = 540\<rparr>, ''#22c55e''), (\<lparr>px = 640, py = 60\<rparr>, ''#3b82f6'')]"
  by (simp add: pointsOf_pair pointMarkers_def scalePoint_def computeBounds_def Let_def
      orElse_def upt_rec)

text \<open>
  The canvas of the examples: a container 832 wide gives the state 800 by 600, which the
  attributes of the canvas keep. A container 433 wide gives the state 401 by 300.75, and a
  canvas of 401 by 300. In a container narrower than 32 the state is negative and the
  canvas has its default size.
\<close>

lemma canvas_832:
  "canvasWidth (browser theme (Some 832) tw) = 800" "canvasHeight (browser theme (Some 832) tw) = 600"
  by (simp_all add: canvasWidth_def canvasHeight_def dimensionsOf_def browser_def handleResize_def
      canvasAttribute_def toUint32_def Let_def)

lemma canvas_433:
  "dimensionsOf (browser theme (Some 433) tw) = (401, 1203 / 4)"
  "canvasWidth (browser theme (Some 433) tw) = 401" "canvasHeight (browser theme (Some 433) tw) = 300"
  by (simp_all add: canvasWidth_def canvasHeight_def dimensionsOf_def browser_def handleResize_def
      canvasAttribute_def toUint32_def Let_def fl_1203_quarters)

lemma canvas_0:
  "dimensionsOf (browser theme (Some 0) tw) = (- 32, - 24)"
  "canvasWidth (browser theme (Some 0) tw) = 300" "canvasHeight (browser theme (Some 0) tw) = 150"
  by (simp_all add: canvasWidth_def canvasHeight_def dimensionsOf_def browser_def handleResize_def
      canvasAttribute_def toUint32_def Let_def)

lemma canvas_unmounted:
  "canvasWidth (browser theme None tw) = 600" "canvasHeight (browser theme None tw) = 400"
  by (simp_all add: canvasWidth_def canvasHeight_def dimensionsOf_def browser_def
      canvasAttribute_def toUint32_def Let_def)

text \<open>
  Claim C8, as the code has it. For the same solution with at least one point and the
  same flag \<open>showRoute\<close>, and a canvas that gives a drawing context, the two renderers
  agree in this: when the route is shown and has more than one point, each draws one line
  for every index \<open>i\<close> of the route, in the order of the route, from the projection of
  point \<open>i\<close> to the projection of point \<open>(i + 1) mod length\<close>; and each draws one
  marker for every original point, in the order of the upload, at its projection, green
  for the first and blue for the others. Each renderer projects with its own viewport and
  padding: the canvas with the width and the height of the canvas element and 40, the SVG
  with 800 by 600 and 60. So the positions are the same function of the projection, and
  in general not the same numbers.
\<close>

theorem C8_common_drawing:
  assumes "pointsOf sol \<noteq> []" and "context2d env"
  shows
   "canvasSegments (TSPVisualization env (Some sol) showRoute) =
      (if showRoute \<and> 1 < length (routeOf sol)
       then tourSegments
              (map (scalePoint (computeBounds (canvasWidth env) (canvasHeight env) 40 (pointsOf sol)))
                   (routeOf sol))
       else []) \<and>
    svgSegments (TSPVisualizationSVG env (Some sol) showRoute sel) =
      (if showRoute \<and> 1 < length (routeOf sol)
       then tourSegments (map (scalePoint (computeBounds 800 600 60 (pointsOf sol))) (routeOf sol))
       else []) \<and>
    canvasMarkers (TSPVisualization env (Some sol) showRoute) =
      pointMarkers (computeBounds (canvasWidth env) (canvasHeight env) 40 (pointsOf sol)) (pointsOf sol) \<and>
    svgMarkers (TSPVisualizationSVG env (Some sol) showRoute sel) =
      pointMarkers (computeBounds 800 600 60 (pointsOf sol)) (pointsOf sol)"
  unfolding TSPVisualization_def TSPVisualizationSVG_def
  by (simp only: assms(2) if_True canvasSegments_canvasDraw [OF assms(1)]
      svgSegments_svgRender [OF assms(1)] canvasMarkers_canvasDraw [OF assms(1)]
      svgMarkers_svgRender [OF assms(1)] simp_thms)

theorem C8_witness:
  "pointsOf pair \<noteq> [] \<and> context2d (browser None (Some 832) 40) \<and>
   canvasMarkers (TSPVisualization (browser None (Some 832) 40) (Some pair) True) =
     [(\<lparr>px = 140, py = 560\<rparr>, ''#22c55e''), (\<lparr>px = 660, py = 40\<rparr>, ''#3b82f6'')] \<and>
   svgMarkers (TSPVisualizationSVG (browser None (Some 832) 40) (Some pair) True initialSelection) =
     [(\<lparr>px = 160, py = 540\<rparr>, ''#22c55e''), (\<lparr>px = 640, py = 60\<rparr>, ''#3b82f6'')]"
proof -
  have ne: "pointsOf pair \<noteq> []" by (simp add: pointsOf_pair)
  have ctx: "context2d (browser None (Some 832) 40)" by (simp add: browser_def)
  from C8_common_drawing [OF ne ctx, of True initialSelection] ne ctx
  show ?thesis by (simp add: canvas_832 pointMarkers_pair_canvas pointMarkers_pair_svg)
qed

text \<open>
  The claim as the specification states it fails already at the positions. For the
  solution \<open>pair\<close>, the light theme, no selection and a canvas of 800 by 600 (a container
  832 wide), as large as the SVG viewport, the canvas renderer draws the two markers at
  (140, 560) and (660, 40), the SVG renderer at (160, 540) and (640, 60).
\<close>

theorem C8_counterexample:
  "canvasWidth (browser None (Some 832) 40) = 800 \<and>
   canvasHeight (browser None (Some 832) 40) = 600 \<and>
   canvasMarkers (TSPVisualization (browser None (Some 832) 40) (Some pair) True) =
     [(\<lparr>px = 140, py = 560\<rparr>, ''#22c55e''), (\<lparr>px = 660, py = 40\<rparr>, ''#3b82f6'')] \<and>
   svgMarkers (TSPVisualizationSVG (browser None (Some 832) 40) (Some pair) True initialSelection) =
     [(\<lparr>px = 160, py = 540\<rparr>, ''#22c55e''), (\<lparr>px = 640, py = 60\<rparr>, ''#3b82f6'')] \<and>
   canvasMarkers (TSPVisualization (browser None (Some 832) 40) (Some pair) True) \<noteq>
   svgMarkers (TSPVisualizationSVG (browser None (Some 832) 40) (Some pair) True initialSelection)"
proof -
  have ne: "pointsOf pair \<noteq> []" by (simp add: pointsOf_pair)
  have ctx: "context2d (browser None (Some 832) 40)" by (simp add: browser_def)
  show ?thesis
    by (simp add: TSPVisualization_def TSPVisualizationSVG_def canvas_832 ctx
        canvasMarkers_canvasDraw [OF ne] svgMarkers_svgRender [OF ne]
        pointMarkers_pair_canvas pointMarkers_pair_svg)
qed

text \<open>
  Claim C9. The texts of the distance labels of the SVG renderer are the distances of
  \<open>getRouteDistances\<close> on the route as the solution gives it, in problem space, written
  with one fraction digit; the viewport does not occur in them. For any two viewports the
  labels, and the route distances of the memoised layout, are the same.
\<close>

theorem C9_distances_in_problem_space:
  "distanceLabels (svgRender w1 h1 p1 dark (Some sol) showRoute sel) =
     (if showRoute \<and> pointsOf sol \<noteq> [] \<and> 1 < length (routeOf sol)
      then map (\<lambda>d. if d \<noteq> 0 then toFixed d 1 else ''0.0'') (getRouteDistances (routeOf sol))
      else []) \<and>
   distanceLabels (svgRender w1 h1 p1 dark solution showRoute sel) =
   distanceLabels (svgRender w2 h2 p2 dark solution showRoute sel) \<and>
   l_routeDistances (useMemoLayout w1 h1 p1 solution) =
   l_routeDistances (useMemoLayout w2 h2 p2 solution)"
proof (intro conjI)
  show "distanceLabels (svgRender w1 h1 p1 dark (Some sol) showRoute sel) =
     (if showRoute \<and> pointsOf sol \<noteq> [] \<and> 1 < length (routeOf sol)
      then map (\<lambda>d. if d \<noteq> 0 then toFixed d 1 else ''0.0'') (getRouteDistances (routeOf sol))
      else [])"
    by (rule distanceLabels_svgRender)
  show "distanceLabels (svgRender w1 h1 p1 dark solution showRoute sel) =
        distanceLabels (svgRender w2 h2 p2 dark solution showRoute sel)"
  proof (cases solution)
    case None
    then show ?thesis by (simp add: svgRender_def)
  next
    case (Some s)
    then show ?thesis by (simp only: distanceLabels_svgRender)
  qed
  show "l_routeDistances (useMemoLayout w1 h1 p1 solution) =
        l_routeDistances (useMemoLayout w2 h2 p2 solution)"
  proof (cases solution)
    case None
    then show ?thesis by (simp add: useMemoLayout_def)
  next
    case (Some s)
    then show ?thesis
      by (cases "pointsOf s = []") (simp_all add: useMemoLayout_empty useMemoLayout_Some)
  qed
qed

theorem C9_witness:
  "distanceLabels (svgRender 800 600 60 False (Some triangleSolution) True initialSelection) =
     [''5.0'', ''5.0'', ''6.0''] \<and>
   distanceLabels (svgRender 400 300 10 False (Some triangleSolution) True initialSelection) =
     [''5.0'', ''5.0'', ''6.0'']"
proof -
  have ne: "pointsOf triangleSolution \<noteq> []"
    by (simp add: triangleSolution_def pointsOf_def)
  have len: "1 < length (routeOf triangleSolution)"
    by (simp add: triangleSolution_def routeOf_def)
  note C9 = C9_distances_in_problem_space
    [of 800 600 60 False triangleSolution True initialSelection "Some triangleSolution" 400 300 10]
  from C9 ne len
  have a: "distanceLabels (svgRender 800 600 60 False (Some triangleSolution) True initialSelection) =
     [''5.0'', ''5.0'', ''6.0'']"
    by (simp add: getRouteDistances_triangleSolution toFixed_labels)
  note b = C9 [THEN conjunct2, THEN conjunct1]
  from a b show ?thesis by simp
qed

lemma context2d_browser: "context2d (browser theme clientWidth tw)"
  by (simp add: browser_def)

lemma hd_TSPVisualization:
  "context2d env \<Longrightarrow>
   hd (TSPVisualization env (Some sol) showRoute) =
     FillRect 0 0 (canvasWidth env) (canvasHeight env)
       (if rootAttributes env ''data-theme'' = Some ''dark'' then ''#1e293b'' else ''#ffffff'')"
  by (simp add: TSPVisualization_def canvasDraw_def isDarkMode_def)

lemma startLabel_solo:
  "TSPVisualization (browser None (Some 832) tw) (Some solo) False ! 3 =
     FillRect (140 - tw / 2 - 4) 519 (tw + 2 * 4) 20 ''#22c55e''"
proof -
  have m: "measureText (browser None (Some 832) tw) ''bold 12px Arial'' ''START'' = tw"
    by (simp add: browser_def)
  show ?thesis
    unfolding TSPVisualization_def canvas_832 m
    by (simp add: context2d_browser canvasDraw_def canvasPoint_def solo_def pointsOf_def
        routeOf_def scalePoint_def computeBounds_def Let_def orElse_def)
qed

text \<open>
  Claim C7, as the code has it. The theme is not a parameter of the renderers: both read
  the attribute \<open>data-theme\<close> of the root element of the global document. The output of
  the SVG renderer is a function of its properties and of whether that attribute is
  \<open>'dark'\<close>: two renders with the same properties, in browsers that agree on this, give
  the same output. The output of the canvas renderer is a function of its properties, of
  whether the attribute is \<open>'dark'\<close>, and of three more readings of the browser:
  whether the canvas gives a drawing context, the \<open>clientWidth\<close> of the container of
  the canvas, and the width that the browser measures for the text \<open>'START'\<close> in the
  font \<open>'bold 12px Arial'\<close>. The background of either is the dark one exactly when the
  attribute is \<open>'dark'\<close>.
\<close>

theorem C7_theme_read_from_document:
  "(isDarkMode e1 = isDarkMode e2 \<longrightarrow>
      TSPVisualizationSVG e1 solution showRoute sel = TSPVisualizationSVG e2 solution showRoute sel) \<and>
   (isDarkMode e1 = isDarkMode e2 \<and>
    context2d e1 = context2d e2 \<and>
    containerClientWidth e1 = containerClientWidth e2 \<and>
    measureText e1 ''bold 12px Arial'' ''START'' = measureText e2 ''bold 12px Arial'' ''START'' \<longrightarrow>
      TSPVisualization e1 solution showRoute = TSPVisualization e2 solution showRoute) \<and>
   sceneBackground (TSPVisualizationSVG e1 (Some sol) showRoute sel) =
     Some (if rootAttributes e1 ''data-theme'' = Some ''dark'' then ''#1e293b'' else ''#ffffff'') \<and>
   (context2d e1 \<longrightarrow>
      hd (TSPVisualization e1 (Some sol) showRoute) =
        FillRect 0 0 (canvasWidth e1) (canvasHeight e1)
          (if rootAttributes e1 ''data-theme'' = Some ''dark'' then ''#1e293b'' else ''#ffffff''))"
proof (intro conjI impI)
  show "TSPVisualizationSVG e1 solution showRoute sel = TSPVisualizationSVG e2 solution showRoute sel"
    if "isDarkMode e1 = isDarkMode e2"
    using that by (simp add: TSPVisualizationSVG_def)
  show "TSPVisualization e1 solution showRoute = TSPVisualization e2 solution showRoute"
    if "isDarkMode e1 = isDarkMode e2 \<and>
        context2d e1 = context2d e2 \<and>
        containerClientWidth e1 = containerClientWidth e2 \<and>
        measureText e1 ''bold 12px Arial'' ''START'' = measureText e2 ''bold 12px Arial'' ''START''"
    using that
    by (simp add: TSPVisualization_def canvasWidth_def canvasHeight_def dimensionsOf_def)
  show "sceneBackground (TSPVisualizationSVG e1 (Some sol) showRoute sel) =
     Some (if rootAttributes e1 ''data-theme'' = Some ''dark'' then ''#1e293b'' else ''#ffffff'')"
    by (simp add: TSPVisualizationSVG_def sceneBackground_def svgRender_def isDarkMode_def Let_def)
  show "hd (TSPVisualization e1 (Some sol) showRoute) =
     FillRect 0 0 (canvasWidth e1) (canvasHeight e1)
       (if rootAttributes e1 ''data-theme'' = Some ''dark'' then ''#1e293b'' else ''#ffffff'')"
    if "context2d e1"
    using that by (rule hd_TSPVisualization)
qed

theorem C7_witness:
  "isDarkMode (browser (Some ''light'') (Some 832) 40) = isDarkMode plainBrowser \<and>
   context2d (browser (Some ''light'') (Some 832) 40) = context2d plainBrowser \<and>
   context2d plainBrowser \<and>
   containerClientWidth (browser (Some ''light'') (Some 832) 40) = containerClientWidth plainBrowser \<and>
   measureText (browser (Some ''light'') (Some 832) 40) ''bold 12px Arial'' ''START'' =
     measureText plainBrowser ''bold 12px Arial'' ''START'' \<and>
   browser (Some ''light'') (Some 832) 40 \<noteq> plainBrowser \<and>
   TSPVisualizationSVG (browser (Some ''light'') (Some 832) 40) (Some solo) True initialSelection =
   TSPVisualizationSVG plainBrowser (Some solo) True initialSelection \<and>
   TSPVisualization (browser (Some ''light'') (Some 832) 40) (Some solo) True =
   TSPVisualization plainBrowser (Some solo) True \<and>
   sceneBackground (TSPVisualizationSVG plainBrowser (Some solo) True initialSelection) =
     Some ''#ffffff'' \<and>
   hd (TSPVisualization plainBrowser (Some solo) True) = FillRect 0 0 800 600 ''#ffffff''"
proof -
  have a: "isDarkMode (browser (Some ''light'') (Some 832) 40) = isDarkMode plainBrowser"
    and x: "context2d (browser (Some ''light'') (Some 832) 40) = context2d plainBrowser"
    and x': "context2d plainBrowser"
    and w: "canvasWidth plainBrowser = 800" "canvasHeight plainBrowser = 600"
    and b: "containerClientWidth (browser (Some ''light'') (Some 832) 40) =
            containerClientWidth plainBrowser"
    and c: "measureText (browser (Some ''light'') (Some 832) 40) ''bold 12px Arial'' ''START'' =
            measureText plainBrowser ''bold 12px Arial'' ''START''"
    and d: "rootAttributes plainBrowser ''data-theme'' \<noteq> Some ''dark''"
    by (simp_all add: isDarkMode_def browser_def plainBrowser_def canvasWidth_def
        canvasHeight_def dimensionsOf_def handleResize_def canvasAttribute_def toUint32_def Let_def)
  have e: "browser (Some ''light'') (Some 832) 40 \<noteq> plainBrowser"
  proof
    assume "browser (Some ''light'') (Some 832) 40 = plainBrowser"
    then have "rootAttributes (browser (Some ''light'') (Some 832) 40) ''lang'' =
               rootAttributes plainBrowser ''lang''"
      by (rule arg_cong)
    then show False by (simp add: browser_def plainBrowser_def)
  qed
  note C7 = C7_theme_read_from_document
    [of "browser (Some ''light'') (Some 832) 40" plainBrowser "Some solo" True initialSelection solo]
  note C7' = C7_theme_read_from_document
    [of plainBrowser plainBrowser "Some solo" True initialSelection solo]
  from C7 a x b c have
    "TSPVisualizationSVG (browser (Some ''light'') (Some 832) 40) (Some solo) True initialSelection =
     TSPVisualizationSVG plainBrowser (Some solo) True initialSelection"
    "TSPVisualization (browser (Some ''light'') (Some 832) 40) (Some solo) True =
     TSPVisualization plainBrowser (Some solo) True"
    by blast+
  moreover from C7' d x' w have
    "sceneBackground (TSPVisualizationSVG plainBrowser (Some solo) True initialSelection) =
     Some ''#ffffff''"
    "hd (TSPVisualization plainBrowser (Some solo) True) = FillRect 0 0 800 600 ''#ffffff''"
    by simp_all
  ultimately show ?thesis using a x x' b c e by blast
qed

text \<open>
  The claim as the specification states it fails: with the same solution, flag and
  selection, the SVG renderer gives two different outputs for two states of the global
  document. The canvas renderer, with the same solution and flag, gives different outputs
  also for two widths of its container, and for two widths that the browser measures for
  the text \<open>'START'\<close>.
\<close>

theorem C7_counterexample:
  "sceneBackground
     (TSPVisualizationSVG (browser (Some ''dark'') (Some 832) 40) (Some solo) True initialSelection) =
     Some ''#1e293b'' \<and>
   sceneBackground
     (TSPVisualizationSVG (browser None (Some 832) 40) (Some solo) True initialSelection) =
     Some ''#ffffff'' \<and>
   TSPVisualizationSVG (browser (Some ''dark'') (Some 832) 40) (Some solo) True initialSelection \<noteq>
   TSPVisualizationSVG (browser None (Some 832) 40) (Some solo) True initialSelection \<and>
   hd (TSPVisualization (browser None (Some 832) 40) (Some solo) False) =
     FillRect 0 0 800 600 ''#ffffff'' \<and>
   hd (TSPVisualization (browser None (Some 433) 40) (Some solo) False) =
     FillRect 0 0 401 300 ''#ffffff'' \<and>
   TSPVisualization (browser None (Some 832) 40) (Some solo) False \<noteq>
   TSPVisualization (browser None (Some 433) 40) (Some solo) False \<and>
   TSPVisualization (browser None (Some 832) 40) (Some solo) False ! 3 =
     FillRect 116 519 48 20 ''#22c55e'' \<and>
   TSPVisualization (browser None (Some 832) 50) (Some solo) False ! 3 =
     FillRect 111 519 58 20 ''#22c55e'' \<and>
   TSPVisualization (browser None (Some 832) 40) (Some solo) False \<noteq>
   TSPVisualization (browser None (Some 832) 50) (Some solo) False"
proof -
  let ?dark = "browser (Some ''dark'') (Some 832) 40" and ?light = "browser None (Some 832) 40"
  have dark: "sceneBackground (TSPVisualizationSVG ?dark (Some solo) True initialSelection) =
     Some ''#1e293b''"
    by (simp add: TSPVisualizationSVG_def sceneBackground_def svgRender_def isDarkMode_def Let_def
        browser_def)
  have light: "sceneBackground (TSPVisualizationSVG ?light (Some solo) True initialSelection) =
     Some ''#ffffff''"
    by (simp add: TSPVisualizationSVG_def sceneBackground_def svgRender_def isDarkMode_def Let_def
        browser_def)
  have svg: "TSPVisualizationSVG ?dark (Some solo) True initialSelection \<noteq>
        TSPVisualizationSVG ?light (Some solo) True initialSelection"
  proof
    assume "TSPVisualizationSVG ?dark (Some solo) True initialSelection =
            TSPVisualizationSVG ?light (Some solo) True initialSelection"
    then have "Some ''#1e293b'' = Some ''#ffffff''"
      using dark light by simp
    then show False by simp
  qed
  have h1: "hd (TSPVisualization ?light (Some solo) False) = FillRect 0 0 800 600 ''#ffffff''"
    by (simp add: hd_TSPVisualization context2d_browser canvas_832) (simp add: browser_def)
  have h2: "hd (TSPVisualization (browser None (Some 433) 40) (Some solo) False) =
      FillRect 0 0 401 300 ''#ffffff''"
    by (simp add: hd_TSPVisualization context2d_browser canvas_433) (simp add: browser_def)
  have size: "TSPVisualization ?light (Some solo) False \<noteq>
      TSPVisualization (browser None (Some 433) 40) (Some solo) False"
  proof
    assume "TSPVisualization ?light (Some solo) False =
            TSPVisualization (browser None (Some 433) 40) (Some solo) False"
    then have "FillRect 0 0 800 600 ''#ffffff'' = FillRect 0 0 401 300 ''#ffffff''"
      using h1 h2 by simp
    then show False by simp
  qed
  have l1: "TSPVisualization ?light (Some solo) False ! 3 = FillRect 116 519 48 20 ''#22c55e''"
    by (simp add: startLabel_solo)
  have l2: "TSPVisualization (browser None (Some 832) 50) (Some solo) False ! 3 =
      FillRect 111 519 58 20 ''#22c55e''"
    by (simp add: startLabel_solo)
  have label: "TSPVisualization ?light (Some solo) False \<noteq>
      TSPVisualization (browser None (Some 832) 50) (Some solo) False"
  proof
    assume "TSPVisualization ?light (Some solo) False =
            TSPVisualization (browser None (Some 832) 50) (Some solo) False"
    then have "FillRect 116 519 48 20 ''#22c55e'' = FillRect 111 519 58 20 ''#22c55e''"
      using l1 l2 by simp
    then show False by simp
  qed
  from dark light svg h1 h2 size l1 l2 label show ?thesis by blast
qed

end
